theory Spec2Isabelle
  imports Complex_Main
begin

section \<open>Python floats\<close>

text \<open>
  A Python \<^verbatim>\<open>float\<close> is an IEEE 754 binary64 number: a finite value, one of the two
  infinities, or NaN. The finite values are modelled by the reals they denote, and every
  arithmetic result is rounded to the nearest binary64 value, ties to even, with overflow
  to infinity and gradual underflow to zero. The sign of a zero is not recorded: the
  program never prints a zero's sign, and no comparison, truth test or division in it
  depends on that sign.
\<close>

datatype pyfloat = Fin real | PosInf | NegInf | NaN

definition pow2 :: "int \<Rightarrow> real" where
  "pow2 e = 2 powi e"

text \<open>Rounding a real to the nearest integer, ties to the even one.\<close>

definition rne :: "real \<Rightarrow> int" where
  "rne z =
     (let f = \<lfloor>z\<rfloor>; d = z - of_int f
      in if d < 1 / 2 then f else if 1 / 2 < d then f + 1 else if even f then f else f + 1)"

text \<open>
  The binary exponent of the binade of \<open>x\<close>, not below that of the subnormal numbers,
  and the rounding of a real to binary64: to a multiple of \<open>2\<close> to the power
  \<open>expo x - 52\<close>, or to an infinity when that multiple is not below \<open>2\<close> to the
  power 1024.
\<close>

definition expo :: "real \<Rightarrow> int" where
  "expo x = (if x = 0 then - 1022 else max \<lfloor>log 2 \<bar>x\<bar>\<rfloor> (- 1022))"

definition fl :: "real \<Rightarrow> pyfloat" where
  "fl x =
     (let u = pow2 (expo x - 52); y = of_int (rne (x / u)) * u
      in if pow2 1024 \<le> \<bar>y\<bar> then (if 0 < x then PosInf else NegInf) else Fin y)"

text \<open>Negation, addition, subtraction and multiplication of floats; none of them raises.\<close>

fun fneg :: "pyfloat \<Rightarrow> pyfloat" where
  "fneg (Fin a) = Fin (- a)"
| "fneg PosInf = NegInf"
| "fneg NegInf = PosInf"
| "fneg NaN = NaN"

fun fadd :: "pyfloat \<Rightarrow> pyfloat \<Rightarrow> pyfloat" where
  "fadd (Fin a) (Fin b) = fl (a + b)"
| "fadd NaN y = NaN"
| "fadd x NaN = NaN"
| "fadd PosInf NegInf = NaN"
| "fadd NegInf PosInf = NaN"
| "fadd PosInf y = PosInf"
| "fadd NegInf y = NegInf"
| "fadd (Fin a) PosInf = PosInf"
| "fadd (Fin a) NegInf = NegInf"

definition fsub :: "pyfloat \<Rightarrow> pyfloat \<Rightarrow> pyfloat" where
  "fsub x y = fadd x (fneg y)"

text \<open>An infinity with the sign of a nonzero real, and the sign of a float.\<close>

definition inf_of :: "real \<Rightarrow> pyfloat" where
  "inf_of s = (if 0 < s then PosInf else NegInf)"

fun fmul :: "pyfloat \<Rightarrow> pyfloat \<Rightarrow> pyfloat" where
  "fmul (Fin a) (Fin b) = fl (a * b)"
| "fmul NaN y = NaN"
| "fmul x NaN = NaN"
| "fmul PosInf PosInf = PosInf"
| "fmul PosInf NegInf = NegInf"
| "fmul NegInf PosInf = NegInf"
| "fmul NegInf NegInf = PosInf"
| "fmul PosInf (Fin b) = (if b = 0 then NaN else inf_of b)"
| "fmul NegInf (Fin b) = (if b = 0 then NaN else inf_of (- b))"
| "fmul (Fin a) PosInf = (if a = 0 then NaN else inf_of a)"
| "fmul (Fin a) NegInf = (if a = 0 then NaN else inf_of (- a))"

text \<open>
  The quotient of two floats for a divisor other than zero, and \<^verbatim>\<open>a / b\<close>: Python
  raises \<^verbatim>\<open>ZeroDivisionError\<close> for a zero divisor, whatever the dividend.
\<close>

fun fquot :: "pyfloat \<Rightarrow> pyfloat \<Rightarrow> pyfloat" where
  "fquot (Fin a) (Fin b) = fl (a / b)"
| "fquot NaN y = NaN"
| "fquot x NaN = NaN"
| "fquot PosInf (Fin b) = inf_of b"
| "fquot NegInf (Fin b) = inf_of (- b)"
| "fquot (Fin a) PosInf = Fin 0"
| "fquot (Fin a) NegInf = Fin 0"
| "fquot PosInf y = NaN"
| "fquot NegInf y = NaN"

datatype error =
  TypeError | ValueError | ZeroDivisionError | OverflowError | KeyError | IndexingError

definition py_div :: "pyfloat \<Rightarrow> pyfloat \<Rightarrow> error + pyfloat" where
  "py_div a b = (if b = Fin 0 then Inl ZeroDivisionError else Inr (fquot a b))"

text \<open>\<^verbatim>\<open>a <= b\<close> on floats: false whenever one side is NaN.\<close>

fun fle :: "pyfloat \<Rightarrow> pyfloat \<Rightarrow> bool" where
  "fle NaN y = False"
| "fle x NaN = False"
| "fle NegInf y = True"
| "fle (Fin a) NegInf = False"
| "fle (Fin a) (Fin b) = (a \<le> b)"
| "fle (Fin a) PosInf = True"
| "fle PosInf NegInf = False"
| "fle PosInf (Fin b) = False"
| "fle PosInf PosInf = True"

section \<open>Python values\<close>

text \<open>
  The screener (\<^verbatim>\<open>App.py\<close>) reads a loosely typed dictionary of fundamentals, so
  the values of that dictionary are modelled as a datatype of Python objects: \<^verbatim>\<open>None\<close>,
  \<^verbatim>\<open>bool\<close>, \<^verbatim>\<open>int\<close>, \<^verbatim>\<open>float\<close>, \<^verbatim>\<open>str\<close> and
  \<^verbatim>\<open>list\<close> (a list stands for every container, on which \<^verbatim>\<open>float()\<close> and
  arithmetic raise \<^verbatim>\<open>TypeError\<close>).
\<close>

datatype pyval = PNone | PBool bool | PInt int | PFloat pyfloat | PStr string | PList "pyval list"

type_synonym pydict = "string \<rightharpoonup> pyval"

text \<open>
  \<^verbatim>\<open>float(s)\<close> on a string is Python's own parser. It is taken as a parameter
  \<open>pf\<close>: \<open>pf s = Some x\<close> when \<^verbatim>\<open>float(s)\<close> returns \<open>x\<close>, and \<open>None\<close>
  when it raises \<^verbatim>\<open>ValueError\<close>.
\<close>

type_synonym parser = "string \<Rightarrow> pyfloat option"

text \<open>\<^verbatim>\<open>d.get(k, None)\<close>\<close>

definition py_get :: "pydict \<Rightarrow> string \<Rightarrow> pyval" where
  "py_get d k = (case d k of None \<Rightarrow> PNone | Some v \<Rightarrow> v)"

text \<open>The truth value of an object, as \<^verbatim>\<open>if x\<close> and \<^verbatim>\<open>x and y\<close> read it.\<close>

fun truthy :: "pyval \<Rightarrow> bool" where
  "truthy PNone = False"
| "truthy (PBool b) = b"
| "truthy (PInt i) = (i \<noteq> 0)"
| "truthy (PFloat x) = (x \<noteq> Fin 0)"
| "truthy (PStr s) = (s \<noteq> [])"
| "truthy (PList xs) = (xs \<noteq> [])"

text \<open>
  The conversion of an \<^verbatim>\<open>int\<close> to a float, as \<^verbatim>\<open>float(i)\<close> and mixed
  arithmetic do it: correctly rounded, and \<^verbatim>\<open>OverflowError\<close> when the int is beyond
  the range of the floats.
\<close>

definition int_to_float :: "int \<Rightarrow> error + pyfloat" where
  "int_to_float i = (case fl (of_int i) of Fin y \<Rightarrow> Inr (Fin y) | _ \<Rightarrow> Inl OverflowError)"

text \<open>\<^verbatim>\<open>float(v)\<close>\<close>

fun py_float :: "parser \<Rightarrow> pyval \<Rightarrow> error + pyfloat" where
  "py_float pf (PStr s) = (case pf s of None \<Rightarrow> Inl ValueError | Some x \<Rightarrow> Inr x)"
| "py_float pf (PFloat x) = Inr x"
| "py_float pf (PInt i) = int_to_float i"
| "py_float pf (PBool b) = Inr (Fin (if b then 1 else 0))"
| "py_float pf PNone = Inl TypeError"
| "py_float pf (PList xs) = Inl TypeError"

text \<open>Sequencing of two steps, the first of which may raise.\<close>

definition bind_err :: "error + 'a \<Rightarrow> ('a \<Rightarrow> error + 'b) \<Rightarrow> error + 'b" where
  "bind_err m f = (case m of Inl e \<Rightarrow> Inl e | Inr x \<Rightarrow> f x)"

text \<open>
  \<^verbatim>\<open>v * y\<close> for a float \<open>y\<close>: a number is converted to a float first; a string, a
  list or \<^verbatim>\<open>None\<close> times a float is a \<^verbatim>\<open>TypeError\<close>.
\<close>

fun py_mul_float :: "pyval \<Rightarrow> pyfloat \<Rightarrow> error + pyfloat" where
  "py_mul_float (PFloat x) y = Inr (fmul x y)"
| "py_mul_float (PInt i) y = bind_err (int_to_float i) (\<lambda>x. Inr (fmul x y))"
| "py_mul_float (PBool b) y = Inr (fmul (Fin (if b then 1 else 0)) y)"
| "py_mul_float PNone y = Inl TypeError"
| "py_mul_float (PStr s) y = Inl TypeError"
| "py_mul_float (PList xs) y = Inl TypeError"

section \<open>The metric engine: \<^verbatim>\<open>compute_metrics\<close>\<close>

text \<open>
  The dictionary \<^verbatim>\<open>{'raw': raw, 'price': price}\<close> that \<^verbatim>\<open>fetch_yf_info\<close> builds is
  the pair of its two entries; the first is \<open>None\<close> when the key \<^verbatim>\<open>'raw'\<close> is
  absent (\<^verbatim>\<open>info_raw.get('raw', {})\<close> then reads the empty dictionary).
\<close>

type_synonym info = "pydict option \<times> pyfloat option"

definition get_raw :: "info \<Rightarrow> pydict" where
  "get_raw info_raw = (case fst info_raw of None \<Rightarrow> Map.empty | Some d \<Rightarrow> d)"

definition of_price :: "pyfloat option \<Rightarrow> pyval" where
  "of_price price = (case price of None \<Rightarrow> PNone | Some p \<Rightarrow> PFloat p)"

text \<open>
  Lines 61 to 67: the debt/equity ratio, coerced inside a \<^verbatim>\<open>try\<close> whose handler
  stores \<^verbatim>\<open>None\<close>.
\<close>

definition debt_to_equity :: "parser \<Rightarrow> pydict \<Rightarrow> pyval" where
  "debt_to_equity pf ri =
     (let dte = py_get ri ''debtToEquity'' in
      if dte \<noteq> PNone
      then (case py_float pf dte of Inl e \<Rightarrow> PNone | Inr x \<Rightarrow> PFloat x)
      else dte)"

text \<open>
  Lines 68 and 69: the dividend yield. The conversion stands outside every
  \<^verbatim>\<open>try\<close>, so what \<^verbatim>\<open>float(dy)\<close> raises leaves the function.
\<close>

definition dividend_yield :: "parser \<Rightarrow> pydict \<Rightarrow> error + pyval" where
  "dividend_yield pf ri =
     (let dy = py_get ri ''dividendYield'' in
      if dy = PNone then Inr PNone
      else bind_err (py_float pf dy) (\<lambda>x. Inr (PFloat (fmul x (Fin 100)))))"

text \<open>Lines 74 to 80: the free cash flow yield, with its \<^verbatim>\<open>try\<close>.\<close>

definition fcf_yield :: "parser \<Rightarrow> pyval \<Rightarrow> pyval \<Rightarrow> pyval" where
  "fcf_yield pf fcf mcap =
     (case (if fcf \<noteq> PNone \<and> truthy mcap
            then bind_err (py_float pf fcf) (\<lambda>a.
                 bind_err (py_float pf mcap) (\<lambda>b.
                 bind_err (py_div a b) (\<lambda>q. Inr (PFloat (fmul q (Fin 100))))))
            else Inr PNone)
      of Inl e \<Rightarrow> PNone | Inr v \<Rightarrow> v)"

text \<open>
  Lines 82 to 96: the Graham value and the margin of safety, as the pair of the two
  entries the block stores. An exception anywhere in the block resets both to
  \<^verbatim>\<open>None\<close>. The growth rate and the discount rate are the floats of two
  \<^verbatim>\<open>number_input\<close> widgets, which are finite; \<^verbatim>\<open>2\<close>, \<^verbatim>\<open>8.5\<close> and
  \<^verbatim>\<open>100.0\<close> are floats as they stand, and the literal \<^verbatim>\<open>4.4\<close> is the float
  nearest to it.
\<close>

definition growth_factor :: "real \<Rightarrow> error + pyfloat" where
  "growth_factor est_growth =
     bind_err (py_div (Fin est_growth) (Fin 100)) (\<lambda>q.
       Inr (fadd (Fin 8.5) (fmul (Fin 2) q)))"

definition graham_value :: "pyval \<Rightarrow> real \<Rightarrow> real \<Rightarrow> error + pyfloat" where
  "graham_value eps est_growth aaa_rate =
     bind_err (growth_factor est_growth) (\<lambda>k.
     bind_err (py_mul_float eps k) (\<lambda>a.
     bind_err (py_div (Fin aaa_rate) (Fin 100)) (\<lambda>d.
       py_div (fmul a (fl 4.4)) d)))"

definition graham_block :: "pyval \<Rightarrow> pyfloat option \<Rightarrow> real \<Rightarrow> real \<Rightarrow> pyval \<times> pyval" where
  "graham_block eps price est_growth aaa_rate =
     (if eps \<noteq> PNone \<and> aaa_rate \<noteq> 0 \<and> aaa_rate > 0
      then (case graham_value eps est_growth aaa_rate of
              Inl e \<Rightarrow> (PNone, PNone)
            | Inr graham \<Rightarrow>
                (case price of
                   None \<Rightarrow> (PFloat graham, PNone)
                 | Some p \<Rightarrow>
                     if p \<noteq> Fin 0 \<and> graham \<noteq> Fin 0
                     then (case py_div (fsub graham p) graham of
                             Inl e \<Rightarrow> (PNone, PNone)
                           | Inr q \<Rightarrow> (PFloat graham, PFloat (fmul q (Fin 100))))
                     else (PFloat graham, PNone)))
      else (PNone, PNone))"

text \<open>
  Lines 54 to 99. The row \<^verbatim>\<open>r\<close> is a dictionary from column names to values; the
  function returns it, or raises what the dividend yield conversion raises.
\<close>

definition compute_metrics ::
  "parser \<Rightarrow> string \<Rightarrow> info \<Rightarrow> pyfloat option \<Rightarrow> real \<Rightarrow> real \<Rightarrow> error + pydict" where
  "compute_metrics pf ticker info_raw price est_growth aaa_rate =
     (let ri = get_raw info_raw;
          r = Map.empty;
          r = r(''Ticker'' \<mapsto> PStr ticker);
          r = r(''Price (USD)'' \<mapsto> of_price price);
          r = r(''P/E'' \<mapsto> py_get ri ''trailingPE'');
          r = r(''P/B'' \<mapsto> py_get ri ''priceToBook'');
          r = r(''Debt/Equity'' \<mapsto> debt_to_equity pf ri)
      in bind_err (dividend_yield pf ri) (\<lambda>dy.
         let r = r(''Dividend Yield (%)'' \<mapsto> dy);
             fcf = py_get ri ''freeCashflow'';
             r = r(''FreeCashflow (USD)'' \<mapsto> fcf);
             mcap = py_get ri ''marketCap'';
             r = r(''MarketCap (USD)'' \<mapsto> mcap);
             r = r(''FCF Yield (%)'' \<mapsto> fcf_yield pf fcf mcap);
             eps = py_get ri ''trailingEps'';
             gm = graham_block eps price est_growth aaa_rate;
             r = r(''Graham Value (est. USD)'' \<mapsto> fst gm);
             r = r(''Margin of Safety (%)'' \<mapsto> snd gm);
             r = r(''Sector'' \<mapsto> py_get ri ''sector'');
             r = r(''Industry'' \<mapsto> py_get ri ''industry'')
         in Inr r))"

text \<open>The entry of a column in the row a call returned, if it returned one.\<close>

definition entry :: "error + pydict \<Rightarrow> string \<Rightarrow> pyval option" where
  "entry res c = (case res of Inl e \<Rightarrow> None | Inr r \<Rightarrow> r c)"

section \<open>The result table and the filter\<close>

text \<open>
  \<^verbatim>\<open>pd.DataFrame(rows)\<close>: a table whose columns are the keys of the row
  dictionaries, whose records are the rows in their order, and whose row labels (the
  index) are the positions \<open>0, 1, ...\<close>. A row without a key has a missing cell in that
  column. A table keeps the labels of its rows when rows are selected from it.
\<close>

record dataframe =
  columns :: "string set"
  index :: "nat list"
  records :: "pydict list"

definition DataFrame :: "pydict list \<Rightarrow> dataframe" where
  "DataFrame rows =
     \<lparr>columns = (\<Union>r \<in> set rows. dom r), index = [0..<length rows], records = rows\<rparr>"

text \<open>
  A series: values with their row labels. \<^verbatim>\<open>df[c]\<close> is the series of the cells of a
  column under the labels of the table, or \<^verbatim>\<open>KeyError\<close> when the table has no such
  column. \<^verbatim>\<open>pd.Series([True] * n)\<close> is labelled \<open>0, ..., n - 1\<close>.
\<close>

type_synonym 'a series = "(nat \<times> 'a) list"

definition getitem :: "dataframe \<Rightarrow> string \<Rightarrow> error + pyval option series" where
  "getitem df c =
     (if c \<in> columns df then Inr (zip (index df) (map (\<lambda>r. r c) (records df)))
      else Inl KeyError)"

definition new_mask :: "nat \<Rightarrow> bool series" where
  "new_mask n = map (\<lambda>i. (i, True)) [0..<n]"

text \<open>
  The number a cell stands for in a comparison: a \<^verbatim>\<open>bool\<close>, an \<^verbatim>\<open>int\<close> (compared
  by its value) or a \<^verbatim>\<open>float\<close>.
\<close>

fun num_val :: "pyval \<Rightarrow> pyfloat option" where
  "num_val (PBool b) = Some (Fin (if b then 1 else 0))"
| "num_val (PInt i) = Some (Fin (of_int i))"
| "num_val (PFloat x) = Some x"
| "num_val PNone = None"
| "num_val (PStr s) = None"
| "num_val (PList xs) = None"

text \<open>
  An element of a series: a number, or another object. \<^verbatim>\<open>fillna(v)\<close> replaces a
  missing cell (no value, \<^verbatim>\<open>None\<close> or NaN) by \<open>v\<close>.
\<close>

datatype elem = Num pyfloat | Obj pyval

definition fillna :: "pyfloat \<Rightarrow> pyval option \<Rightarrow> elem" where
  "fillna v c =
     (case c of
        None \<Rightarrow> Num v
      | Some x \<Rightarrow>
          if x = PNone then Num v
          else (case num_val x of
                  Some a \<Rightarrow> if a = NaN then Num v else Num a
                | None \<Rightarrow> Obj x))"

definition series_fillna :: "pyfloat \<Rightarrow> pyval option series \<Rightarrow> elem series" where
  "series_fillna v s = map (\<lambda>(l, c). (l, fillna v c)) s"

text \<open>
  \<^verbatim>\<open>series <= t\<close> and \<^verbatim>\<open>series >= t\<close>, element by element under the same
  labels; comparing a string or a list with a float raises \<^verbatim>\<open>TypeError\<close>.
\<close>

fun le_elem :: "elem \<Rightarrow> real \<Rightarrow> error + bool" where
  "le_elem (Num x) t = Inr (fle x (Fin t))"
| "le_elem (Obj v) t = Inl TypeError"

fun ge_elem :: "elem \<Rightarrow> real \<Rightarrow> error + bool" where
  "ge_elem (Num x) t = Inr (fle (Fin t) x)"
| "ge_elem (Obj v) t = Inl TypeError"

fun sequence :: "(error + 'a) list \<Rightarrow> error + 'a list" where
  "sequence [] = Inr []"
| "sequence (m # ms) = bind_err m (\<lambda>x. bind_err (sequence ms) (\<lambda>xs. Inr (x # xs)))"

definition series_le :: "elem series \<Rightarrow> real \<Rightarrow> error + bool series" where
  "series_le s t =
     bind_err (sequence (map (\<lambda>(l, x). le_elem x t) s)) (\<lambda>bs. Inr (zip (map fst s) bs))"

definition series_ge :: "elem series \<Rightarrow> real \<Rightarrow> error + bool series" where
  "series_ge s t =
     bind_err (sequence (map (\<lambda>(l, x). ge_elem x t) s)) (\<lambda>bs. Inr (zip (map fst s) bs))"

text \<open>
  \<^verbatim>\<open>mask & other\<close>. Two series with the same labels are combined element by
  element. Otherwise pandas aligns them: the result is labelled by the sorted union of
  the labels, and it is true at a label only where both series have the label and are
  true there.
\<close>

definition holds :: "bool series \<Rightarrow> nat \<Rightarrow> bool" where
  "holds m l = (map_of m l = Some True)"

definition mask_and :: "bool series \<Rightarrow> bool series \<Rightarrow> bool series" where
  "mask_and mask0 other =
     (if map fst mask0 = map fst other
      then map (\<lambda>((l, a), (k, b)). (l, a \<and> b)) (zip mask0 other)
      else map (\<lambda>l. (l, holds mask0 l \<and> holds other l))
             (sort (remdups (map fst mask0 @ map fst other))))"

text \<open>
  \<^verbatim>\<open>df[mask]\<close>: the rows whose label the mask holds at, under their labels. pandas
  raises \<^verbatim>\<open>IndexingError\<close> when the mask lacks a label of the table.
\<close>

definition select :: "dataframe \<Rightarrow> bool series \<Rightarrow> error + dataframe" where
  "select df mask0 =
     (if set (index df) \<subseteq> set (map fst mask0)
      then (let keep = filter (\<lambda>(l, r). holds mask0 l) (zip (index df) (records df))
            in Inr (df\<lparr>index := map fst keep, records := map snd keep\<rparr>))
      else Inl IndexingError)"

text \<open>
  The six thresholds as the filter block reads them: each is tested against
  \<^verbatim>\<open>None\<close> before its clause is applied.
\<close>

record thresholds =
  pe_max :: "real option"
  pb_max :: "real option"
  de_max :: "real option"
  div_yield_min :: "real option"
  fcf_yield_min :: "real option"
  min_mos :: "real option"

text \<open>
  One step of the block, lines 122 to 133:
  \<^verbatim>\<open>if t is not None: mask = mask & (df[c].fillna(np.inf) <= t)\<close>, and the same with
  \<^verbatim>\<open>-np.inf\<close> and \<^verbatim>\<open>>=\<close>.
\<close>

definition apply_max :: "dataframe \<Rightarrow> string \<Rightarrow> real option \<Rightarrow> bool series \<Rightarrow> error + bool series" where
  "apply_max df c t mask0 =
     (case t of
        None \<Rightarrow> Inr mask0
      | Some v \<Rightarrow>
          bind_err (getitem df c) (\<lambda>col.
          bind_err (series_le (series_fillna PosInf col) v) (\<lambda>other.
          Inr (mask_and mask0 other))))"

definition apply_min :: "dataframe \<Rightarrow> string \<Rightarrow> real option \<Rightarrow> bool series \<Rightarrow> error + bool series" where
  "apply_min df c t mask0 =
     (case t of
        None \<Rightarrow> Inr mask0
      | Some v \<Rightarrow>
          bind_err (getitem df c) (\<lambda>col.
          bind_err (series_ge (series_fillna NegInf col) v) (\<lambda>other.
          Inr (mask_and mask0 other))))"

text \<open>
  Lines 121 to 135: the mask over the six columns, and the filtered table
  (\<^verbatim>\<open>df[mask].copy()\<close>).
\<close>

definition apply_filters :: "thresholds \<Rightarrow> dataframe \<Rightarrow> error + dataframe" where
  "apply_filters th df =
     bind_err (apply_max df ''P/E'' (pe_max th) (new_mask (length (records df)))) (\<lambda>mask.
     bind_err (apply_max df ''P/B'' (pb_max th) mask) (\<lambda>mask.
     bind_err (apply_max df ''Debt/Equity'' (de_max th) mask) (\<lambda>mask.
     bind_err (apply_min df ''Dividend Yield (%)'' (div_yield_min th) mask) (\<lambda>mask.
     bind_err (apply_min df ''FCF Yield (%)'' (fcf_yield_min th) mask) (\<lambda>mask.
     bind_err (apply_min df ''Margin of Safety (%)'' (min_mos th) mask) (\<lambda>mask.
     select df mask))))))"

section \<open>The sidebar and the run handler\<close>

text \<open>
  The numbers the user enters in the sidebar (lines 18 to 28). Each
  \<^verbatim>\<open>st.sidebar.number_input\<close> is created with a float default and returns a finite
  float, never \<^verbatim>\<open>None\<close>.
\<close>

record config =
  maxPE :: real
  maxPB :: real
  maxDE :: real
  minDivYield :: real
  minFCFYield :: real
  minMoS :: real
  growth :: real
  discountRate :: real

definition sidebar :: "config \<Rightarrow> thresholds" where
  "sidebar cfg =
     \<lparr>pe_max = Some (maxPE cfg), pb_max = Some (maxPB cfg), de_max = Some (maxDE cfg),
      div_yield_min = Some (minDivYield cfg), fcf_yield_min = Some (minFCFYield cfg),
      min_mos = Some (minMoS cfg)\<rparr>"

text \<open>
  Lines 108 to 115. \<^verbatim>\<open>fetch_yf_info\<close> talks to the market data provider, so the
  fetch is a parameter: \<open>fetch tk\<close> is the information it returns, or the exception it
  raises. An exception of the fetch or of \<^verbatim>\<open>compute_metrics\<close> is replaced by the
  two-entry row of line 114.
\<close>

definition fallback_row :: "string \<Rightarrow> pydict" where
  "fallback_row tk = [''Ticker'' \<mapsto> PStr tk, ''Price (USD)'' \<mapsto> PNone]"

definition process_ticker ::
  "(string \<Rightarrow> error + info) \<Rightarrow> parser \<Rightarrow> real \<Rightarrow> real \<Rightarrow> string \<Rightarrow> pydict" where
  "process_ticker fetch pf est_growth aaa_rate tk =
     (case bind_err (fetch tk) (\<lambda>info.
             compute_metrics pf tk info (snd info) est_growth aaa_rate) of
        Inl e \<Rightarrow> fallback_row tk
      | Inr row \<Rightarrow> row)"

fun batch :: "(string \<Rightarrow> pydict) \<Rightarrow> string list \<Rightarrow> pydict list \<Rightarrow> pydict list" where
  "batch f [] rows = rows"
| "batch f (tk # tks) rows = batch f tks (rows @ [f tk])"

text \<open>
  What one run shows: the error message of \<^verbatim>\<open>st.error\<close>, the two tables, the
  payloads of the download buttons, and the exception that ended the run, if any. The
  two encoders of the export are parameters.
\<close>

record 'b screen =
  error_message :: "string option"
  raw_results :: "dataframe option"
  filtered_results :: "dataframe option"
  downloads :: "'b list"
  uncaught :: "error option"

definition run ::
  "(string \<Rightarrow> error + info) \<Rightarrow> parser \<Rightarrow> (dataframe \<Rightarrow> 'b) \<Rightarrow> (dataframe \<Rightarrow> 'b) \<Rightarrow> config \<Rightarrow>
   string list \<Rightarrow> 'b screen" where
  "run fetch pf to_csv to_excel_bytes cfg tickers =
     (if tickers = []
      then \<lparr>error_message = Some ''Please enter at least one ticker on the left.'',
            raw_results = None, filtered_results = None, downloads = [], uncaught = None\<rparr>
      else
        (let rows = batch (process_ticker fetch pf (growth cfg) (discountRate cfg)) tickers [];
             df = DataFrame rows
         in case apply_filters (sidebar cfg) df of
              Inl e \<Rightarrow>
                \<lparr>error_message = None, raw_results = Some df, filtered_results = None,
                 downloads = [], uncaught = Some e\<rparr>
            | Inr df_filtered \<Rightarrow>
                \<lparr>error_message = None, raw_results = Some df,
                 filtered_results = Some df_filtered,
                 downloads = [to_csv df_filtered, to_excel_bytes df_filtered],
                 uncaught = None\<rparr>))"

section \<open>The filter as the specification words it\<close>

text \<open>
  A metric is unknown in a row when the row has no value for it. The value of a metric
  with unknown replaced by a default, and the conjunction of the six clauses: the three
  maxima with unknown as plus infinity, the three minima with unknown as minus infinity.
\<close>

definition unknown :: "pydict \<Rightarrow> string \<Rightarrow> bool" where
  "unknown r c = (r c = None \<or> r c = Some PNone)"

definition metric :: "pyfloat \<Rightarrow> pydict \<Rightarrow> string \<Rightarrow> pyfloat" where
  "metric dflt r c =
     (case r c of
        None \<Rightarrow> dflt
      | Some v \<Rightarrow> (case num_val v of None \<Rightarrow> dflt | Some a \<Rightarrow> if a = NaN then dflt else a))"

definition survives :: "config \<Rightarrow> pydict \<Rightarrow> bool" where
  "survives cfg r =
     (fle (metric PosInf r ''P/E'') (Fin (maxPE cfg))
      \<and> fle (metric PosInf r ''P/B'') (Fin (maxPB cfg))
      \<and> fle (metric PosInf r ''Debt/Equity'') (Fin (maxDE cfg))
      \<and> fle (Fin (minDivYield cfg)) (metric NegInf r ''Dividend Yield (%)'')
      \<and> fle (Fin (minFCFYield cfg)) (metric NegInf r ''FCF Yield (%)'')
      \<and> fle (Fin (minMoS cfg)) (metric NegInf r ''Margin of Safety (%)''))"

text \<open>
  A table of metric rows: every record has its own label, the table has the six
  filtered columns, and each of their cells is a number or unknown.
\<close>

definition metric_columns :: "string list" where
  "metric_columns = [''P/E'', ''P/B'', ''Debt/Equity'', ''Dividend Yield (%)'',
     ''FCF Yield (%)'', ''Margin of Safety (%)'']"

definition numeric_cell :: "pyval option \<Rightarrow> bool" where
  "numeric_cell c = (case c of None \<Rightarrow> True | Some v \<Rightarrow> v = PNone \<or> num_val v \<noteq> None)"

definition metric_table :: "dataframe \<Rightarrow> bool" where
  "metric_table df =
     (length (index df) = length (records df) \<and> distinct (index df)
      \<and> (\<forall>c \<in> set metric_columns.
            c \<in> columns df \<and> (\<forall>r \<in> set (records df). numeric_cell (r c))))"

text \<open>
  The rows of a table that one pass of the filter block keeps, with their labels: those
  that satisfy the six clauses and whose label is below the number of rows, the labels
  of the fresh mask of line 121.
\<close>

definition kept :: "config \<Rightarrow> dataframe \<Rightarrow> (nat \<times> pydict) list" where
  "kept cfg df =
     filter (\<lambda>(l, r). l < length (records df) \<and> survives cfg r) (zip (index df) (records df))"

text \<open>\<^verbatim>\<open>df.reset_index(drop=True)\<close>: the same table with its rows labelled afresh.\<close>

definition reset_index :: "dataframe \<Rightarrow> dataframe" where
  "reset_index df = df\<lparr>index := [0..<length (records df)]\<rparr>"

text \<open>
  The free cash flow yield as a case distinction: unknown when the free cash flow is
  absent, when the market capitalisation is absent, zero, empty or false, when
  \<^verbatim>\<open>float()\<close> rejects one of the two, or when the market capitalisation converts to
  zero; otherwise the float quotient times 100.
\<close>

definition fcf_yield_cases :: "parser \<Rightarrow> pyval \<Rightarrow> pyval \<Rightarrow> pyval" where
  "fcf_yield_cases pf fcf mcap =
     (if fcf = PNone \<or> \<not> truthy mcap then PNone
      else (case (py_float pf fcf, py_float pf mcap) of
              (Inr a, Inr b) \<Rightarrow>
                if b = Fin 0 then PNone else PFloat (fmul (fquot a b) (Fin 100))
            | (Inr a, Inl e) \<Rightarrow> PNone
            | (Inl e, y) \<Rightarrow> PNone))"

section \<open>Example data\<close>

text \<open>
  The default settings of the sidebar, and three rows: one that meets every default
  threshold, one whose P/E is too high, and one that differs from the first only in
  that its dividend yield is unknown.
\<close>

definition default_config :: config where
  "default_config = \<lparr>maxPE = 15, maxPB = 3, maxDE = 100, minDivYield = 0, minFCFYield = 0,
     minMoS = 20, growth = 5, discountRate = 4\<rparr>"

definition row_cheap :: pydict where
  "row_cheap = [''Ticker'' \<mapsto> PStr ''AAA'', ''P/E'' \<mapsto> PFloat (Fin 10),
     ''P/B'' \<mapsto> PFloat (Fin 1), ''Debt/Equity'' \<mapsto> PFloat (Fin 50),
     ''Dividend Yield (%)'' \<mapsto> PFloat (Fin 2), ''FCF Yield (%)'' \<mapsto> PFloat (Fin 5),
     ''Margin of Safety (%)'' \<mapsto> PFloat (Fin 50)]"

definition row_dear :: pydict where
  "row_dear = [''Ticker'' \<mapsto> PStr ''BBB'', ''P/E'' \<mapsto> PFloat (Fin 40),
     ''P/B'' \<mapsto> PFloat (Fin 1), ''Debt/Equity'' \<mapsto> PFloat (Fin 50),
     ''Dividend Yield (%)'' \<mapsto> PFloat (Fin 2), ''FCF Yield (%)'' \<mapsto> PFloat (Fin 5),
     ''Margin of Safety (%)'' \<mapsto> PFloat (Fin 50)]"

definition row_no_dividend :: pydict where
  "row_no_dividend = [''Ticker'' \<mapsto> PStr ''CCC'', ''P/E'' \<mapsto> PFloat (Fin 10),
     ''P/B'' \<mapsto> PFloat (Fin 1), ''Debt/Equity'' \<mapsto> PFloat (Fin 50),
     ''Dividend Yield (%)'' \<mapsto> PNone, ''FCF Yield (%)'' \<mapsto> PFloat (Fin 5),
     ''Margin of Safety (%)'' \<mapsto> PFloat (Fin 50)]"

text \<open>
  Raw fundamentals with every attribute a number, and raw fundamentals of a company
  with a free cash flow, a market capitalisation of zero and earnings per share of
  zero.
\<close>

definition raw_example :: pydict where
  "raw_example = [''trailingPE'' \<mapsto> PFloat (Fin 12), ''priceToBook'' \<mapsto> PFloat (Fin 2),
     ''debtToEquity'' \<mapsto> PFloat (Fin 40), ''dividendYield'' \<mapsto> PFloat (Fin 0.03125),
     ''freeCashflow'' \<mapsto> PInt 1000000, ''marketCap'' \<mapsto> PInt 16000000,
     ''trailingEps'' \<mapsto> PInt 5]"

definition raw_zero_cap :: pydict where
  "raw_zero_cap = [''freeCashflow'' \<mapsto> PInt 1000000, ''marketCap'' \<mapsto> PInt 0,
     ''trailingEps'' \<mapsto> PFloat (Fin 0)]"

text \<open>
  A parser that rejects every string, an int beyond the range of the floats, raw
  fundamentals whose free cash flow is that int, and raw fundamentals whose free cash
  flow yield overflows: \<open>2\<close> to the power 1023 divided by one half.
\<close>

definition reject_all :: parser where
  "reject_all s = None"

definition huge_int :: int where
  "huge_int = 10 ^ 309"

definition raw_huge_fcf :: pydict where
  "raw_huge_fcf = [''freeCashflow'' \<mapsto> PInt huge_int, ''marketCap'' \<mapsto> PInt 1]"

definition raw_overflow :: pydict where
  "raw_overflow = [''freeCashflow'' \<mapsto> PFloat (Fin (pow2 1023)), ''marketCap'' \<mapsto> PFloat (Fin (1 / 2))]"

section \<open>Properties of the rounding\<close>

text \<open>
  Powers of two, rounding to the nearest integer, and the rounding to binary64: how to
  evaluate it at a given real, when its result is finite, when it is zero and when it is
  infinite.
\<close>

lemma pow2_pos [simp]: "0 < pow2 e"
  by (simp add: pow2_def)

lemma pow2_nonneg [simp]: "0 \<le> pow2 e"
  by (simp add: pow2_def)

lemma pow2_not_le0 [simp]: "\<not> pow2 e \<le> 0"
  using pow2_pos [of e] by linarith

lemma abs_pow2 [simp]: "\<bar>pow2 e\<bar> = pow2 e"
  by simp

lemma pow2_neq0 [simp]: "pow2 e \<noteq> 0"
  using pow2_pos [of e] by linarith

lemma pow2_add: "pow2 (a + b) = pow2 a * pow2 b"
  by (simp add: pow2_def power_int_add)

lemma pow2_diff: "pow2 (a - b) = pow2 a / pow2 b"
  by (simp add: pow2_def power_int_diff)

lemma pow2_mono: "a \<le> b \<Longrightarrow> pow2 a \<le> pow2 b"
  by (simp add: pow2_def power_int_increasing)

lemma pow2_powr: "pow2 e = 2 powr (of_int e)"
  by (simp add: pow2_def powr_real_of_int')

lemma rne_near: "\<bar>z - of_int N\<bar> < 1 / 2 \<Longrightarrow> rne z = N"
proof -
  assume a: "\<bar>z - of_int N\<bar> < 1 / 2"
  consider "of_int N \<le> z" | "z < of_int N" by linarith
  then show ?thesis
  proof cases
    case 1
    with a have "\<lfloor>z\<rfloor> = N" by (intro floor_unique) linarith+
    with a 1 show ?thesis by (simp add: rne_def Let_def)
  next
    case 2
    have m: "real_of_int (N - 1) = of_int N - 1" by simp
    from a 2 have "\<lfloor>z\<rfloor> = N - 1"
      by (intro floor_unique) (unfold m, linarith+)
    with a 2 show ?thesis by (auto simp: rne_def Let_def)
  qed
qed

lemma rne_0 [simp]: "rne 0 = 0"
  by (rule rne_near) simp

lemma fl_0 [simp]: "fl 0 = Fin 0"
  by (simp add: fl_def Let_def)

lemma floor_log2:
  assumes "pow2 e \<le> x" and "x < pow2 (e + 1)"
  shows "\<lfloor>log 2 x\<rfloor> = e"
proof -
  have pos: "0 < x" using assms(1) pow2_pos [of e] by linarith
  have "2 powr (of_int e) \<le> x" using assms(1) by (simp add: pow2_powr)
  moreover have "x < 2 powr (of_int e + 1)"
    using assms(2) by (simp add: pow2_powr)
  ultimately show ?thesis
    using pos floor_log_eq_powr_iff [of x 2 e] by simp
qed

lemma expo_normal:
  assumes "pow2 e \<le> \<bar>x\<bar>" and "\<bar>x\<bar> < pow2 (e + 1)" and "- 1022 \<le> e"
  shows "expo x = e"
proof -
  have "x \<noteq> 0" using assms(1) pow2_pos [of e] by auto
  with floor_log2 [OF assms(1,2)] assms(3) show ?thesis by (simp add: expo_def)
qed

lemma expo_subnormal:
  assumes "\<bar>x\<bar> < pow2 (- 1022)"
  shows "expo x = - 1022"
proof (cases "x = 0")
  case True
  then show ?thesis by (simp add: expo_def)
next
  case False
  then have pos: "0 < \<bar>x\<bar>" by simp
  have "log 2 \<bar>x\<bar> < of_int (- 1022)"
    using assms pos by (subst log_less_iff) (simp_all add: pow2_powr)
  then have "\<lfloor>log 2 \<bar>x\<bar>\<rfloor> < - 1022" by (simp only: floor_less_iff)
  then show ?thesis using False by (simp add: expo_def)
qed

lemma fl_eval:
  assumes "pow2 e \<le> \<bar>x\<bar>" and "\<bar>x\<bar> < pow2 (e + 1)" and "- 1022 \<le> e"
    and "\<bar>x / pow2 (e - 52) - of_int N\<bar> < 1 / 2"
    and "\<bar>of_int N * pow2 (e - 52)\<bar> < pow2 1024"
  shows "fl x = Fin (of_int N * pow2 (e - 52))"
  using assms(5) by (simp add: fl_def Let_def expo_normal [OF assms(1-3)] rne_near [OF assms(4)])

lemma int_abs_le_of_lt:
  fixes N M :: int
  assumes "\<bar>real_of_int N\<bar> < of_int M + 1 / 2"
  shows "\<bar>N\<bar> \<le> M"
proof -
  have "real_of_int \<bar>N\<bar> < of_int (M + 1)" using assms by simp
  then have "\<bar>N\<bar> < M + 1" by (simp only: of_int_less_iff)
  then show ?thesis by simp
qed

lemma fl_eval_subnormal:
  assumes "\<bar>x\<bar> < pow2 (- 1022)"
    and "\<bar>x / pow2 (- 1074) - of_int N\<bar> < 1 / 2"
  shows "fl x = Fin (of_int N * pow2 (- 1074))"
proof -
  have "\<bar>x / pow2 (- 1074)\<bar> < pow2 (- 1022) / pow2 (- 1074)"
    using assms(1) by (simp add: divide_strict_right_mono)
  also have "pow2 (- 1022) / pow2 (- 1074) = pow2 52"
    by (simp flip: pow2_diff)
  finally have "\<bar>of_int N\<bar> < pow2 52 + 1 / 2"
    using assms(2) by linarith
  moreover have "pow2 52 = of_int (2 ^ 52)" by (simp add: pow2_def)
  ultimately have "\<bar>N\<bar> \<le> 2 ^ 52" using int_abs_le_of_lt [of N "2 ^ 52"] by simp
  then have "\<bar>real_of_int N\<bar> \<le> pow2 52"
    unfolding \<open>pow2 52 = of_int (2 ^ 52)\<close> by (metis of_int_abs of_int_le_iff)
  then have "\<bar>of_int N * pow2 (- 1074)\<bar> \<le> pow2 52 * pow2 (- 1074)"
    by (simp add: abs_mult)
  also have "\<dots> = pow2 (- 1022)" by (simp flip: pow2_add)
  also have "\<dots> < pow2 1024" by (simp add: pow2_def power_int_strict_increasing)
  finally have fin: "\<not> pow2 1024 \<le> \<bar>of_int N * pow2 (- 1074)\<bar>" by simp
  have u: "pow2 (expo x - 52) = pow2 (- 1074)"
    by (simp add: expo_subnormal [OF assms(1)])
  show ?thesis
    unfolding fl_def Let_def u rne_near [OF assms(2)] using fin by simp
qed

lemma rne_le: "z \<le> of_int M \<Longrightarrow> rne z \<le> M"
proof -
  assume a: "z \<le> of_int M"
  have f: "\<lfloor>z\<rfloor> \<le> M" using a by (simp add: floor_le_iff)
  show ?thesis
  proof (cases "\<lfloor>z\<rfloor> = M")
    case True
    then have "z = of_int \<lfloor>z\<rfloor>" using a by (metis of_int_floor_le order_antisym)
    then have "z - of_int \<lfloor>z\<rfloor> < 1 / 2" by simp
    then show ?thesis using True by (simp add: rne_def Let_def)
  next
    case False
    with f have "\<lfloor>z\<rfloor> + 1 \<le> M" by simp
    then show ?thesis using f by (auto simp: rne_def Let_def)
  qed
qed

lemma rne_ge: "of_int M \<le> z \<Longrightarrow> M \<le> rne z"
proof -
  assume a: "of_int M \<le> z"
  then have "M \<le> \<lfloor>z\<rfloor>" by (simp add: le_floor_iff)
  then show ?thesis by (auto simp: rne_def Let_def)
qed

lemma rne_abs_le: "\<bar>z\<bar> \<le> of_int M \<Longrightarrow> \<bar>rne z\<bar> \<le> M"
proof -
  assume a: "\<bar>z\<bar> \<le> of_int M"
  have "rne z \<le> M" using a by (intro rne_le) linarith
  moreover have "real_of_int (- M) \<le> z" using a by simp
  then have "- M \<le> rne z" by (rule rne_ge)
  ultimately show ?thesis by simp
qed

lemma rne_eq_0D: "rne z = 0 \<Longrightarrow> \<bar>z\<bar> \<le> 1 / 2"
proof (rule ccontr)
  assume r: "rne z = 0" and n: "\<not> \<bar>z\<bar> \<le> 1 / 2"
  then consider "1 / 2 < z" | "z < - 1 / 2" by linarith
  then show False
  proof cases
    case 1
    show False
    proof (cases "1 \<le> z")
      case True
      then have "1 \<le> rne z" using rne_ge [of 1 z] by simp
      with r show False by simp
    next
      case False
      with 1 have "\<lfloor>z\<rfloor> = 0" by (intro floor_unique) simp_all
      with 1 have "rne z = 1" by (simp add: rne_def Let_def)
      with r show False by simp
    qed
  next
    case 2
    show False
    proof (cases "z \<le> - 1")
      case True
      then have "rne z \<le> - 1" using rne_le [of z "- 1"] by simp
      with r show False by simp
    next
      case False
      with 2 have f: "\<lfloor>z\<rfloor> = - 1" by (intro floor_unique) simp_all
      with 2 have "rne z = - 1" by (simp add: rne_def Let_def)
      with r show False by simp
    qed
  qed
qed

lemma expo_ge: "- 1022 \<le> expo x"
  by (simp add: expo_def)

lemma expo_le:
  assumes "\<bar>x\<bar> \<le> pow2 k" and "- 1022 \<le> k"
  shows "expo x \<le> k"
proof (cases "x = 0")
  case True
  with assms(2) show ?thesis by (simp add: expo_def)
next
  case False
  then have pos: "0 < \<bar>x\<bar>" by simp
  have "log 2 \<bar>x\<bar> \<le> of_int k"
    using assms(1) pos by (subst log_le_iff) (simp_all add: pow2_powr)
  then have "\<lfloor>log 2 \<bar>x\<bar>\<rfloor> \<le> k" by (simp add: floor_le_iff)
  with assms(2) False show ?thesis by (simp add: expo_def)
qed

lemma pow2_expo_le:
  assumes "pow2 (- 1022) \<le> \<bar>x\<bar>"
  shows "pow2 (expo x) \<le> \<bar>x\<bar>"
proof -
  have nz: "x \<noteq> 0" using assms pow2_pos [of "- 1022"] by auto
  then have pos: "0 < \<bar>x\<bar>" by simp
  have "of_int (- 1022) \<le> log 2 \<bar>x\<bar>"
    using assms pos by (subst le_log_iff) (simp_all add: pow2_powr)
  then have "- 1022 \<le> \<lfloor>log 2 \<bar>x\<bar>\<rfloor>" by (simp only: le_floor_iff)
  then have e: "expo x = \<lfloor>log 2 \<bar>x\<bar>\<rfloor>" using nz by (simp add: expo_def)
  have "2 powr (of_int \<lfloor>log 2 \<bar>x\<bar>\<rfloor>) \<le> \<bar>x\<bar>"
    using floor_log_eq_powr_iff [of "\<bar>x\<bar>" 2 "\<lfloor>log 2 \<bar>x\<bar>\<rfloor>"] pos by simp
  then show ?thesis by (simp add: e pow2_powr)
qed

lemma pow2_nat: "0 \<le> k \<Longrightarrow> pow2 k = of_int (2 ^ nat k)"
  by (simp add: pow2_def power_int_def)

lemma pow2_strict_mono: "a < b \<Longrightarrow> pow2 a < pow2 b"
  by (simp add: pow2_def power_int_strict_increasing)

lemma fl_bounded:
  assumes "\<bar>x\<bar> \<le> pow2 k" and "- 1022 \<le> k" and "k \<le> 1023"
  shows "\<exists>y. fl x = Fin y \<and> \<bar>y\<bar> \<le> pow2 k"
proof -
  let ?u = "pow2 (expo x - 52)"
  let ?y = "of_int (rne (x / ?u)) * ?u"
  have e: "expo x \<le> k" using assms(1,2) by (rule expo_le)
  then have nn: "0 \<le> k - expo x + 52" by simp
  have "\<bar>x / ?u\<bar> \<le> pow2 k / ?u"
    using assms(1) by (simp add: divide_right_mono)
  also have "pow2 k / ?u = pow2 (k - expo x + 52)"
    by (simp add: pow2_diff pow2_add)
  also have "\<dots> = of_int (2 ^ nat (k - expo x + 52))"
    using nn by (rule pow2_nat)
  finally have "\<bar>rne (x / ?u)\<bar> \<le> 2 ^ nat (k - expo x + 52)"
    by (rule rne_abs_le)
  then have "\<bar>real_of_int (rne (x / ?u))\<bar> \<le> of_int (2 ^ nat (k - expo x + 52))"
    by (metis of_int_abs of_int_le_iff)
  then have "\<bar>real_of_int (rne (x / ?u))\<bar> \<le> pow2 (k - expo x + 52)"
    using pow2_nat [OF nn] by simp
  then have "\<bar>?y\<bar> \<le> pow2 (k - expo x + 52) * ?u"
    by (simp add: abs_mult mult_right_mono)
  also have "\<dots> = pow2 k" by (simp flip: pow2_add)
  finally have b: "\<bar>?y\<bar> \<le> pow2 k" .
  have "pow2 k < pow2 1024" using assms(3) by (intro pow2_strict_mono) simp
  with b have "\<not> pow2 1024 \<le> \<bar>?y\<bar>" by linarith
  then have "fl x = Fin ?y" by (simp add: fl_def Let_def)
  with b show ?thesis by blast
qed

lemma fl_nonzero:
  assumes "pow2 (- 1075) < \<bar>x\<bar>"
  shows "fl x \<noteq> Fin 0"
proof -
  let ?u = "pow2 (expo x - 52)"
  have big: "1 / 2 < \<bar>x / ?u\<bar>"
  proof (cases "\<bar>x\<bar> < pow2 (- 1022)")
    case True
    then have u: "?u = pow2 (- 1074)" by (simp add: expo_subnormal)
    have "pow2 (- 1075) / pow2 (- 1074) < \<bar>x\<bar> / pow2 (- 1074)"
      using assms by (simp add: divide_strict_right_mono)
    moreover have "pow2 (- 1075) / pow2 (- 1074) = 1 / 2"
      by (simp add: pow2_def flip: pow2_diff)
    ultimately show ?thesis by (simp add: u)
  next
    case False
    then have "pow2 (expo x) \<le> \<bar>x\<bar>" by (intro pow2_expo_le) simp
    then have "pow2 (expo x) / ?u \<le> \<bar>x\<bar> / ?u" by (simp add: divide_right_mono)
    moreover have "pow2 (expo x) / ?u = pow2 52" by (simp flip: pow2_diff)
    moreover have "1 / 2 < pow2 52" by (simp add: pow2_def)
    ultimately have "1 / 2 < \<bar>x\<bar> / ?u" by linarith
    then show ?thesis by (simp only: abs_divide abs_pow2)
  qed
  then have "rne (x / ?u) \<noteq> 0" using rne_eq_0D [of "x / ?u"] by auto
  then have "of_int (rne (x / ?u)) * ?u \<noteq> 0" by simp
  then show ?thesis by (auto simp: fl_def Let_def)
qed

lemma expo_lower:
  assumes "pow2 k \<le> \<bar>x\<bar>"
  shows "k \<le> expo x"
proof -
  have nz: "x \<noteq> 0" using assms pow2_pos [of k] by auto
  then have pos: "0 < \<bar>x\<bar>" by simp
  have "of_int k \<le> log 2 \<bar>x\<bar>"
    using assms pos by (subst le_log_iff) (simp_all add: pow2_powr)
  then have "k \<le> \<lfloor>log 2 \<bar>x\<bar>\<rfloor>" by (simp only: le_floor_iff)
  then show ?thesis using nz by (simp add: expo_def)
qed

lemma fl_overflow:
  assumes "pow2 1024 \<le> x"
  shows "fl x = PosInf"
proof -
  let ?u = "pow2 (expo x - 52)"
  let ?y = "of_int (rne (x / ?u)) * ?u"
  have xpos: "0 < x" using assms pow2_pos [of 1024] by linarith
  then have ax: "\<bar>x\<bar> = x" by simp
  have ge: "1024 \<le> expo x" using assms ax expo_lower [of 1024 x] by simp
  have "pow2 (- 1022) \<le> pow2 1024" by (intro pow2_mono) simp
  with assms ax have "pow2 (expo x) \<le> x" using pow2_expo_le [of x] by simp
  then have "pow2 (expo x) / ?u \<le> x / ?u" by (simp add: divide_right_mono)
  moreover have "pow2 (expo x) / ?u = pow2 52" by (simp flip: pow2_diff)
  moreover have "pow2 52 = of_int (2 ^ 52)" by (simp add: pow2_def)
  ultimately have "of_int (2 ^ 52) \<le> x / ?u" by simp
  then have "2 ^ 52 \<le> rne (x / ?u)" by (rule rne_ge)
  then have "of_int (2 ^ 52) \<le> real_of_int (rne (x / ?u))" by (simp only: of_int_le_iff)
  then have "pow2 52 \<le> real_of_int (rne (x / ?u))"
    using \<open>pow2 52 = of_int (2 ^ 52)\<close> by simp
  then have "pow2 52 * ?u \<le> ?y" by (simp add: mult_right_mono)
  moreover have "pow2 52 * ?u = pow2 (expo x)" by (simp flip: pow2_add)
  moreover have "pow2 1024 \<le> pow2 (expo x)" using ge by (rule pow2_mono)
  ultimately have "pow2 1024 \<le> \<bar>?y\<bar>" by linarith
  then show ?thesis using xpos by (simp add: fl_def Let_def)
qed

lemma fl_normal:
  assumes "pow2 e \<le> \<bar>x\<bar>" and "\<bar>x\<bar> < pow2 (e + 1)" and "- 1022 \<le> e" and "e \<le> 1022"
    and "\<bar>x / pow2 (e - 52) - of_int N\<bar> < 1 / 2"
    and "y = of_int N * pow2 (e - 52)"
  shows "fl x = Fin y"
proof -
  let ?u = "pow2 (e - 52)"
  have "\<bar>x / ?u\<bar> < pow2 (e + 1) / ?u"
    using assms(2) by (simp add: divide_strict_right_mono)
  also have "pow2 (e + 1) / ?u = pow2 53" by (simp flip: pow2_diff)
  finally have "\<bar>of_int N\<bar> < pow2 53 + 1 / 2" using assms(5) by linarith
  moreover have p: "pow2 53 = of_int (2 ^ 53)" by (simp add: pow2_def)
  ultimately have "\<bar>N\<bar> \<le> 2 ^ 53" using int_abs_le_of_lt [of N "2 ^ 53"] by simp
  then have "\<bar>real_of_int N\<bar> \<le> pow2 53"
    unfolding p by (metis of_int_abs of_int_le_iff)
  then have "\<bar>of_int N * ?u\<bar> \<le> pow2 53 * ?u" by (simp add: abs_mult)
  also have "\<dots> = pow2 (e + 1)" by (simp add: add.commute flip: pow2_add)
  also have "\<dots> < pow2 1024" using assms(4) by (intro pow2_strict_mono) simp
  finally show ?thesis
    unfolding assms(6) by (rule fl_eval [OF assms(1-3,5)])
qed

lemma fl_underflow:
  assumes "\<bar>x\<bar> < pow2 (- 1075)"
  shows "fl x = Fin 0"
proof -
  have "pow2 (- 1075) < pow2 (- 1022)" by (intro pow2_strict_mono) simp
  with assms have s: "\<bar>x\<bar> < pow2 (- 1022)" by linarith
  have "\<bar>x\<bar> / pow2 (- 1074) < pow2 (- 1075) / pow2 (- 1074)"
    using assms by (simp add: divide_strict_right_mono)
  moreover have "pow2 (- 1075) / pow2 (- 1074) = 1 / 2"
    by (simp add: pow2_def flip: pow2_diff)
  ultimately have "\<bar>x / pow2 (- 1074) - of_int 0\<bar> < 1 / 2" by simp
  from fl_eval_subnormal [OF s this] show ?thesis by simp
qed

lemma fl_not_NaN [simp]: "fl x \<noteq> NaN"
  by (simp add: fl_def Let_def)

section \<open>Properties of \<^verbatim>\<open>compute_metrics\<close>\<close>

text \<open>
  When the dividend yield conversion of lines 68 and 69 does not raise, the function
  returns a row, and each entry of the row is what its own block computed.
\<close>

lemma compute_metrics_row:
  assumes "dividend_yield pf (get_raw info_raw) = Inr dy"
  shows "\<exists>r. compute_metrics pf ticker info_raw price est_growth aaa_rate = Inr r
    \<and> r ''Ticker'' = Some (PStr ticker)
    \<and> r ''Price (USD)'' = Some (of_price price)
    \<and> r ''P/E'' = Some (py_get (get_raw info_raw) ''trailingPE'')
    \<and> r ''P/B'' = Some (py_get (get_raw info_raw) ''priceToBook'')
    \<and> r ''Debt/Equity'' = Some (debt_to_equity pf (get_raw info_raw))
    \<and> r ''Dividend Yield (%)'' = Some dy
    \<and> r ''FCF Yield (%)'' = Some (fcf_yield pf (py_get (get_raw info_raw) ''freeCashflow'')
          (py_get (get_raw info_raw) ''marketCap''))
    \<and> r ''Graham Value (est. USD)'' =
          Some (fst (graham_block (py_get (get_raw info_raw) ''trailingEps'') price est_growth aaa_rate))
    \<and> r ''Margin of Safety (%)'' =
          Some (snd (graham_block (py_get (get_raw info_raw) ''trailingEps'') price est_growth aaa_rate))"
  using assms by (simp add: compute_metrics_def bind_err_def Let_def)

lemma entry_row:
  "compute_metrics pf ticker info_raw price est_growth aaa_rate = Inr r \<Longrightarrow>
   entry (compute_metrics pf ticker info_raw price est_growth aaa_rate) c = r c"
  by (simp add: entry_def)

lemma py_div_100: "py_div (Fin a) (Fin 100) = Inr (fl (a / 100))"
  by (simp add: py_div_def)

lemma py_div_Fin: "b \<noteq> 0 \<Longrightarrow> py_div x (Fin b) = Inr (fquot x (Fin b))"
  by (simp add: py_div_def)

lemma py_div_zero: "py_div x (Fin 0) = Inl ZeroDivisionError"
  by (simp add: py_div_def)

text \<open>
  The arithmetic of the scenario with growth 5, discount rate 4 and earnings per share
  5, one rounding after the other.
\<close>

lemma fl_growth_100: "fl (5 / 100) = Fin (3602879701896397 / 72057594037927936)"
  by (rule fl_normal [where e = "- 5" and N = 7205759403792794]) (simp_all add: pow2_def)

lemma fl_growth_twice: "fl (2 * (3602879701896397 / 72057594037927936)) = Fin (3602879701896397 / 36028797018963968)"
  by (rule fl_normal [where e = "- 4" and N = 7205759403792794]) (simp_all add: pow2_def)

lemma fl_growth_sum: "fl (8.5 + (3602879701896397 / 36028797018963968)) = Fin (4841369599423283 / 562949953421312)"
  by (rule fl_normal [where e = 3 and N = 4841369599423283]) (simp_all add: pow2_def)

lemma fl_int_5: "fl (of_int 5) = Fin 5"
  by (rule fl_normal [where e = 2 and N = 5629499534213120]) (simp_all add: pow2_def)

lemma fl_eps_growth: "fl (5 * (4841369599423283 / 562949953421312)) = Fin 43"
  by (rule fl_normal [where e = 5 and N = 6051711999279104]) (simp_all add: pow2_def)

lemma fl_literal_4_4: "fl (4.4) = Fin (2476979795053773 / 562949953421312)"
  by (rule fl_normal [where e = 2 and N = 4953959590107546]) (simp_all add: pow2_def)

lemma fl_times_4_4: "fl (43 * (2476979795053773 / 562949953421312)) = Fin (6656883199207015 / 35184372088832)"
  by (rule fl_normal [where e = 7 and N = 6656883199207015]) (simp_all add: pow2_def)

lemma fl_rate_100: "fl (4 / 100) = Fin (5764607523034235 / 144115188075855872)"
  by (rule fl_normal [where e = "- 5" and N = 5764607523034235]) (simp_all add: pow2_def)

lemma fl_graham: "fl ((6656883199207015 / 35184372088832) / (5764607523034235 / 144115188075855872)) = Fin 4730"
  by (rule fl_normal [where e = 12 and N = 5200689999380480]) (simp_all add: pow2_def)

lemma fl_margin_diff: "fl (4730 + - 100) = Fin 4630"
  by (rule fl_normal [where e = 12 and N = 5090738836602880]) (simp_all add: pow2_def)

lemma fl_margin_quot: "fl (4630 / 4730) = Fin (4408386104593107 / 4503599627370496)"
  by (rule fl_normal [where e = "- 1" and N = 8816772209186214]) (simp_all add: pow2_def)

lemma fl_margin_pct: "fl ((4408386104593107 / 4503599627370496) * 100) = Fin (3444051644213365 / 35184372088832)"
  by (rule fl_normal [where e = 6 and N = 6888103288426730]) (simp_all add: pow2_def)

lemma int_to_float_5: "int_to_float 5 = Inr (Fin 5)"
  by (simp only: int_to_float_def fl_int_5 pyfloat.case)

lemma growth_factor_5: "growth_factor 5 = Inr (Fin (4841369599423283 / 562949953421312))"
  by (simp only: growth_factor_def py_div_100 bind_err_def sum.case fmul.simps fadd.simps
      fl_growth_100 fl_growth_twice fl_growth_sum)

lemma graham_value_AAA: "graham_value (PInt 5) 5 4 = Inr (Fin 4730)"
proof -
  have nz: "((5764607523034235 / 144115188075855872) :: real) \<noteq> 0" by simp
  show ?thesis
    by (simp only: graham_value_def growth_factor_5 bind_err_def sum.case py_mul_float.simps
        int_to_float_5 fmul.simps fl_eps_growth fl_literal_4_4 fl_times_4_4 py_div_100
        fl_rate_100 py_div_Fin [OF nz] fquot.simps fl_graham)
qed

lemma margin_AAA:
  "bind_err (py_div (fsub (Fin 4730) (Fin 100)) (Fin 4730)) (\<lambda>q. Inr (fmul q (Fin 100)))
     = Inr (Fin (3444051644213365 / 35184372088832))"
proof -
  have nz: "(4730 :: real) \<noteq> 0" by simp
  show ?thesis
    by (simp only: fsub_def fneg.simps fadd.simps fl_margin_diff py_div_Fin [OF nz] fquot.simps
        fl_margin_quot bind_err_def sum.case fmul.simps fl_margin_pct)
qed

lemma graham_block_AAA:
  "graham_block (PInt 5) (Some (Fin 100)) 5 4
     = (PFloat (Fin 4730), PFloat (Fin (3444051644213365 / 35184372088832)))"
proof -
  have "graham_block (PInt 5) (Some (Fin 100)) 5 4
      = (case bind_err (py_div (fsub (Fin 4730) (Fin 100)) (Fin 4730))
                (\<lambda>q. Inr (fmul q (Fin 100))) of
           Inl e \<Rightarrow> (PNone, PNone)
         | Inr m \<Rightarrow> (PFloat (Fin 4730), PFloat m))"
    by (simp add: graham_block_def graham_value_AAA bind_err_def split: sum.splits)
  then show ?thesis by (simp only: margin_AAA sum.case)
qed

text \<open>
  Claim C4. For the ticker \<^verbatim>\<open>AAA\<close> with EPS 5, growth 5 percent, discount rate 4
  percent and price 100, the row holds the Graham value 4730, exactly, and the margin
  of safety is the float \<open>3444051644213365 / 35184372088832\<close> (97.88583509513742),
  which is 97.89 to two decimal places.
\<close>

theorem graham_scenario_AAA:
  "\<exists>r. compute_metrics pf ''AAA'' (Some [''trailingEps'' \<mapsto> PInt 5], Some (Fin 100))
         (Some (Fin 100)) 5 4 = Inr r
     \<and> r ''Graham Value (est. USD)'' = Some (PFloat (Fin 4730))
     \<and> r ''Margin of Safety (%)'' = Some (PFloat (Fin (3444051644213365 / 35184372088832)))
     \<and> \<bar>(3444051644213365 / 35184372088832) - 97.89\<bar> < (0.005 :: real)"
proof -
  have d: "dividend_yield pf (get_raw (Some [''trailingEps'' \<mapsto> PInt 5], Some (Fin 100))) = Inr PNone"
    by (simp add: dividend_yield_def get_raw_def py_get_def)
  have e: "py_get (get_raw (Some [''trailingEps'' \<mapsto> PInt 5], Some (Fin 100))) ''trailingEps'' = PInt 5"
    by (simp add: get_raw_def py_get_def)
  have t: "\<bar>(3444051644213365 / 35184372088832) - 97.89\<bar> < (0.005 :: real)" by simp
  from compute_metrics_row [OF d, of "''AAA''" "Some (Fin 100)" 5 4] t
  show ?thesis unfolding e graham_block_AAA fst_conv snd_conv by blast
qed

lemma huge_int_overflow: "int_to_float huge_int = Inl OverflowError"
proof -
  have "pow2 1024 \<le> real_of_int huge_int" by (simp add: pow2_def huge_int_def)
  then have "fl (of_int huge_int) = PosInf" by (rule fl_overflow)
  then show ?thesis by (simp add: int_to_float_def)
qed

lemma dividend_absent:
  "ri ''dividendYield'' = None \<Longrightarrow> dividend_yield pf ri = Inr PNone"
  by (simp add: dividend_yield_def py_get_def)

lemma dividend_example:
  "dividend_yield pf (get_raw (Some raw_example, p)) = Inr (PFloat (fmul (Fin 0.03125) (Fin 100)))"
  by (simp add: dividend_yield_def get_raw_def raw_example_def py_get_def bind_err_def)

text \<open>
  Claim C1 fails on the code. A dividend yield that \<^verbatim>\<open>float()\<close> rejects (a list,
  a string such as \<^verbatim>\<open>N/A\<close> under every parser that rejects it, or an int beyond
  the range of the floats) makes \<^verbatim>\<open>compute_metrics\<close> raise, and the run handler
  then replaces the whole row by the two-entry fallback row, so the other fields are
  lost with it. The same value in the debt/equity attribute is caught: the row is
  returned with that one field unknown.
\<close>

theorem dividend_yield_escapes:
  "compute_metrics pf ''AAA'' (Some (raw_example(''dividendYield'' \<mapsto> PList [])), Some (Fin 100))
      (Some (Fin 100)) 5 4 = Inl TypeError
   \<and> compute_metrics (pf(''N/A'' := None)) ''AAA''
        (Some (raw_example(''dividendYield'' \<mapsto> PStr ''N/A'')), Some (Fin 100)) (Some (Fin 100)) 5 4
      = Inl ValueError
   \<and> compute_metrics pf ''AAA'' (Some (raw_example(''dividendYield'' \<mapsto> PInt huge_int)), Some (Fin 100))
      (Some (Fin 100)) 5 4 = Inl OverflowError
   \<and> process_ticker (\<lambda>tk. Inr (Some (raw_example(''dividendYield'' \<mapsto> PList [])), Some (Fin 100)))
        pf 5 4 ''AAA'' = fallback_row ''AAA''
   \<and> (\<exists>r. compute_metrics pf ''AAA'' (Some (raw_example(''debtToEquity'' \<mapsto> PList [])), Some (Fin 100))
        (Some (Fin 100)) 5 4 = Inr r \<and> r ''Debt/Equity'' = Some PNone \<and> r ''P/E'' = Some (PFloat (Fin 12)))"
  by (simp add: compute_metrics_def process_ticker_def bind_err_def Let_def get_raw_def
      dividend_yield_def debt_to_equity_def py_get_def raw_example_def huge_int_overflow)

lemma fcf_yield_eq: "fcf_yield pf fcf mcap = fcf_yield_cases pf fcf mcap"
  by (auto simp: fcf_yield_def fcf_yield_cases_def bind_err_def py_div_def split: sum.splits)

text \<open>
  The row holds the free cash flow yield of the case distinction.
\<close>

lemma fcf_yield_entry:
  assumes "dividend_yield pf (get_raw info_raw) = Inr dy"
  shows "\<exists>r. compute_metrics pf ticker info_raw price est_growth aaa_rate = Inr r
     \<and> r ''FCF Yield (%)'' = Some (fcf_yield_cases pf (py_get (get_raw info_raw) ''freeCashflow'')
          (py_get (get_raw info_raw) ''marketCap''))"
  using compute_metrics_row [OF assms, of ticker price est_growth aaa_rate]
  by (auto simp: fcf_yield_eq)

lemma fcf_yield_huge: "fcf_yield_cases pf (PInt huge_int) (PInt 1) = PNone"
  by (simp add: fcf_yield_cases_def huge_int_overflow)

lemma fcf_yield_overflow:
  "fcf_yield_cases pf (PFloat (Fin (pow2 1023))) (PFloat (Fin (1 / 2))) = PFloat PosInf"
proof -
  have "pow2 1024 = pow2 1023 * pow2 1" by (simp flip: pow2_add)
  then have "pow2 1024 \<le> pow2 1023 / (1 / 2)" by (simp add: pow2_def)
  then have "fl (pow2 1023 / (1 / 2)) = PosInf" by (rule fl_overflow)
  then have "fquot (Fin (pow2 1023)) (Fin (1 / 2)) = PosInf" by (simp only: fquot.simps)
  then show ?thesis by (simp add: fcf_yield_cases_def inf_of_def del: fquot.simps)
qed

lemma fcf_yield_zero_cap: "fcf_yield_cases pf (PInt 1000000) (PInt 0) = PNone"
  by (simp add: fcf_yield_cases_def)

lemma fl_int_fcf: "fl (of_int 1000000) = Fin 1000000"
  by (rule fl_normal [where e = 19 and N = 8589934592000000]) (simp_all add: pow2_def)

lemma fl_int_mcap: "fl (of_int 16000000) = Fin 16000000"
  by (rule fl_normal [where e = 23 and N = 8589934592000000]) (simp_all add: pow2_def)

lemma fl_fcf_quot: "fl (1000000 / 16000000) = Fin (1 / 16)"
  by (rule fl_normal [where e = "- 4" and N = 4503599627370496]) (simp_all add: pow2_def)

lemma fl_fcf_pct: "fl ((1 / 16) * 100) = Fin (25 / 4)"
  by (rule fl_normal [where e = 2 and N = 7036874417766400]) (simp_all add: pow2_def)

lemma fcf_yield_example: "fcf_yield_cases pf (PInt 1000000) (PInt 16000000) = PFloat (Fin (25 / 4))"
proof -
  have a: "int_to_float 1000000 = Inr (Fin 1000000)"
    by (simp only: int_to_float_def fl_int_fcf pyfloat.case)
  have b: "int_to_float 16000000 = Inr (Fin 16000000)"
    by (simp only: int_to_float_def fl_int_mcap pyfloat.case)
  have q: "fmul (fquot (Fin 1000000) (Fin 16000000)) (Fin 100) = Fin (25 / 4)"
    by (simp only: fquot.simps fl_fcf_quot fmul.simps fl_fcf_pct)
  have "fcf_yield_cases pf (PInt 1000000) (PInt 16000000)
      = PFloat (fmul (fquot (Fin 1000000) (Fin 16000000)) (Fin 100))"
    by (simp add: fcf_yield_cases_def a b del: fquot.simps fmul.simps)
  then show ?thesis by (simp only: q)
qed

text \<open>
  Claim C5, as stated, fails. With a free cash flow of \<open>10\<close> to the power 309 (an
  int) and a market capitalisation of 1, both are present and the market capitalisation
  is not zero, yet the yield is unknown: \<^verbatim>\<open>float()\<close> raises
  \<^verbatim>\<open>OverflowError\<close> and the handler stores \<^verbatim>\<open>None\<close>. With a free cash flow of
  \<open>2\<close> to the power 1023 and a market capitalisation of one half the yield is the
  float infinity.
\<close>

theorem fcf_yield_counterexample:
  "py_get raw_huge_fcf ''freeCashflow'' \<noteq> PNone
   \<and> py_get raw_huge_fcf ''marketCap'' = PInt 1
   \<and> entry (compute_metrics reject_all ''BBB'' (Some raw_huge_fcf, None) None 5 4)
        ''FCF Yield (%)'' = Some PNone
   \<and> entry (compute_metrics reject_all ''BBB'' (Some raw_overflow, None) None 5 4)
        ''FCF Yield (%)'' = Some (PFloat PosInf)"
proof -
  have d1: "dividend_yield reject_all (get_raw (Some raw_huge_fcf, None)) = Inr PNone"
    by (intro dividend_absent) (simp add: get_raw_def raw_huge_fcf_def)
  have d2: "dividend_yield reject_all (get_raw (Some raw_overflow, None)) = Inr PNone"
    by (intro dividend_absent) (simp add: get_raw_def raw_overflow_def)
  have g1: "py_get (get_raw (Some raw_huge_fcf, None)) ''freeCashflow'' = PInt huge_int"
    "py_get (get_raw (Some raw_huge_fcf, None)) ''marketCap'' = PInt 1"
    by (simp_all add: get_raw_def raw_huge_fcf_def py_get_def)
  have g2: "py_get (get_raw (Some raw_overflow, None)) ''freeCashflow'' = PFloat (Fin (pow2 1023))"
    "py_get (get_raw (Some raw_overflow, None)) ''marketCap'' = PFloat (Fin (1 / 2))"
    by (simp_all add: get_raw_def raw_overflow_def py_get_def)
  have a: "entry (compute_metrics reject_all ''BBB'' (Some raw_huge_fcf, None) None 5 4)
        ''FCF Yield (%)'' = Some PNone"
    using fcf_yield_entry [OF d1, of "''BBB''" None 5 4]
    unfolding g1 fcf_yield_huge by (auto simp: entry_def)
  have b: "entry (compute_metrics reject_all ''BBB'' (Some raw_overflow, None) None 5 4)
        ''FCF Yield (%)'' = Some (PFloat PosInf)"
    using fcf_yield_entry [OF d2, of "''BBB''" None 5 4]
    unfolding g2 fcf_yield_overflow by (auto simp: entry_def)
  show ?thesis using a b by (simp add: raw_huge_fcf_def py_get_def)
qed

text \<open>
  Claim C5, amended. Whenever the dividend yield conversion does not raise, the row is
  returned and its free cash flow yield is unknown when the free cash flow is absent,
  when the market capitalisation is absent or zero, or when \<^verbatim>\<open>float()\<close> rejects
  one of the two; otherwise it is the float quotient times 100, in float arithmetic. No
  division by zero leaves the function.
\<close>

theorem fcf_yield_rule:
  assumes "dividend_yield pf (get_raw info_raw) = Inr dy"
  shows "\<exists>r. compute_metrics pf ticker info_raw price est_growth aaa_rate = Inr r
     \<and> r ''FCF Yield (%)'' = Some (fcf_yield_cases pf (py_get (get_raw info_raw) ''freeCashflow'')
          (py_get (get_raw info_raw) ''marketCap''))"
  using assms by (rule fcf_yield_entry)

text \<open>
  The scenario of the ticker \<^verbatim>\<open>BBB\<close> (free cash flow 1000000, market
  capitalisation 0), and the complete example, whose yield is 6.25.
\<close>

theorem fcf_yield_rule_witness:
  "dividend_yield reject_all (get_raw (Some raw_zero_cap, None)) = Inr PNone
   \<and> (\<exists>r. compute_metrics reject_all ''BBB'' (Some raw_zero_cap, None) None 5 4 = Inr r
        \<and> r ''FCF Yield (%)'' = Some PNone)
   \<and> (\<exists>r. compute_metrics reject_all ''AAA'' (Some raw_example, Some (Fin 100)) (Some (Fin 100)) 5 4 = Inr r
        \<and> r ''FCF Yield (%)'' = Some (PFloat (Fin (25 / 4))))"
proof -
  have d: "dividend_yield reject_all (get_raw (Some raw_zero_cap, None)) = Inr PNone"
    by (intro dividend_absent) (simp add: get_raw_def raw_zero_cap_def)
  have g: "py_get (get_raw (Some raw_zero_cap, None)) ''freeCashflow'' = PInt 1000000"
    "py_get (get_raw (Some raw_zero_cap, None)) ''marketCap'' = PInt 0"
    by (simp_all add: get_raw_def raw_zero_cap_def py_get_def)
  have h: "py_get (get_raw (Some raw_example, Some (Fin 100))) ''freeCashflow'' = PInt 1000000"
    "py_get (get_raw (Some raw_example, Some (Fin 100))) ''marketCap'' = PInt 16000000"
    by (simp_all add: get_raw_def raw_example_def py_get_def)
  have de: "dividend_yield reject_all (get_raw (Some raw_example, Some (Fin 100)))
      = Inr (PFloat (fmul (Fin 0.03125) (Fin 100)))"
    by (rule dividend_example)
  have one: "\<exists>r. compute_metrics reject_all ''BBB'' (Some raw_zero_cap, None) None 5 4 = Inr r
        \<and> r ''FCF Yield (%)'' = Some PNone"
    using fcf_yield_rule [OF d, of "''BBB''" None 5 4]
    unfolding g fcf_yield_zero_cap .
  have two: "\<exists>r. compute_metrics reject_all ''AAA'' (Some raw_example, Some (Fin 100)) (Some (Fin 100)) 5 4 = Inr r
        \<and> r ''FCF Yield (%)'' = Some (PFloat (Fin (25 / 4)))"
    using fcf_yield_rule [OF de, of "''AAA''" "Some (Fin 100)" 5 4]
    unfolding h fcf_yield_example .
  from d one two show ?thesis by blast
qed

lemma graham_block_guard:
  "eps = PNone \<or> aaa_rate \<le> 0 \<Longrightarrow> graham_block eps price est_growth aaa_rate = (PNone, PNone)"
  by (auto simp: graham_block_def)

text \<open>
  Claim C6. When the earnings per share are absent or the discount rate is not
  strictly positive, the Graham value and the margin of safety of the row are both
  unknown.
\<close>

theorem graham_guard:
  assumes "dividend_yield pf (get_raw info_raw) = Inr dy"
    and "py_get (get_raw info_raw) ''trailingEps'' = PNone \<or> aaa_rate \<le> 0"
  shows "\<exists>r. compute_metrics pf ticker info_raw price est_growth aaa_rate = Inr r
     \<and> r ''Graham Value (est. USD)'' = Some PNone
     \<and> r ''Margin of Safety (%)'' = Some PNone"
  using compute_metrics_row [OF assms(1), of ticker price est_growth aaa_rate]
    graham_block_guard [OF assms(2), of price est_growth]
  by auto

text \<open>
  The discount rate 0.
\<close>

theorem graham_guard_witness:
  "dividend_yield reject_all (get_raw (Some raw_zero_cap, None)) = Inr PNone
   \<and> (0 :: real) \<le> 0
   \<and> (\<exists>r. compute_metrics reject_all ''BBB'' (Some raw_zero_cap, None) (Some (Fin 100)) 5 0 = Inr r
        \<and> r ''Graham Value (est. USD)'' = Some PNone
        \<and> r ''Margin of Safety (%)'' = Some PNone)"
proof -
  have d: "dividend_yield reject_all (get_raw (Some raw_zero_cap, None)) = Inr PNone"
    by (intro dividend_absent) (simp add: get_raw_def raw_zero_cap_def)
  show ?thesis
    using graham_guard [OF d, of 0 "''BBB''" "Some (Fin 100)" 5] d by simp
qed

lemma graham_block_zero_price:
  "graham_block eps (Some (Fin 0)) est_growth aaa_rate = graham_block eps None est_growth aaa_rate"
  by (simp add: graham_block_def split: sum.splits)

lemma graham_block_no_price_margin:
  "snd (graham_block eps None est_growth aaa_rate) = PNone"
  by (simp add: graham_block_def split: sum.splits)

lemma graham_block_no_price_value:
  "eps \<noteq> PNone \<Longrightarrow> 0 < aaa_rate \<Longrightarrow> graham_value eps est_growth aaa_rate = Inr gv \<Longrightarrow>
   fst (graham_block eps None est_growth aaa_rate) = PFloat gv"
  by (simp add: graham_block_def)

text \<open>
  Claim C9. The price 0 gives a row with an unknown margin of safety, and with the same
  Graham value and margin of safety as an absent price gives; when the earnings per
  share are present, the discount rate is strictly positive and the Graham computation
  returns a value, the row holds that value.
\<close>

theorem zero_price_as_absent:
  assumes "dividend_yield pf (get_raw info_raw) = Inr dy"
  shows "\<exists>r r'. compute_metrics pf ticker info_raw (Some (Fin 0)) est_growth aaa_rate = Inr r
     \<and> compute_metrics pf ticker info_raw None est_growth aaa_rate = Inr r'
     \<and> r ''Margin of Safety (%)'' = Some PNone
     \<and> r' ''Margin of Safety (%)'' = r ''Margin of Safety (%)''
     \<and> r' ''Graham Value (est. USD)'' = r ''Graham Value (est. USD)''
     \<and> (\<forall>gv. py_get (get_raw info_raw) ''trailingEps'' \<noteq> PNone \<and> 0 < aaa_rate
            \<and> graham_value (py_get (get_raw info_raw) ''trailingEps'') est_growth aaa_rate = Inr gv
          \<longrightarrow> r ''Graham Value (est. USD)'' = Some (PFloat gv))"
  using compute_metrics_row [OF assms, of ticker "Some (Fin 0)" est_growth aaa_rate]
    compute_metrics_row [OF assms, of ticker None est_growth aaa_rate]
  by (auto simp: graham_block_zero_price graham_block_no_price_margin graham_block_no_price_value)

text \<open>
  Earnings per share 5, growth 5, discount rate 4, price 0.
\<close>

theorem zero_price_as_absent_witness:
  "dividend_yield reject_all (get_raw (Some [''trailingEps'' \<mapsto> PInt 5], None)) = Inr PNone
   \<and> (\<exists>r. compute_metrics reject_all ''AAA'' (Some [''trailingEps'' \<mapsto> PInt 5], None)
          (Some (Fin 0)) 5 4 = Inr r
        \<and> r ''Graham Value (est. USD)'' = Some (PFloat (Fin 4730))
        \<and> r ''Margin of Safety (%)'' = Some PNone)"
proof -
  have d: "dividend_yield reject_all (get_raw (Some [''trailingEps'' \<mapsto> PInt 5], None)) = Inr PNone"
    by (intro dividend_absent) (simp add: get_raw_def)
  have e: "py_get (get_raw (Some [''trailingEps'' \<mapsto> PInt 5], None)) ''trailingEps'' = PInt 5"
    by (simp add: get_raw_def py_get_def)
  show ?thesis
    using zero_price_as_absent [OF d, of "''AAA''" 5 4] d
    unfolding e by (auto simp: graham_value_AAA)
qed

lemma growth_factor_finite:
  assumes "\<bar>est_growth\<bar> < pow2 1024"
  shows "\<exists>k. growth_factor est_growth = Inr (Fin k)"
proof -
  have p1: "pow2 1024 = 64 * pow2 1018"
    using pow2_add [of 6 1018] by (simp add: pow2_def)
  have "\<bar>est_growth / 100\<bar> \<le> pow2 1018"
    using assms pow2_pos [of 1018] unfolding p1 by (simp add: field_simps)
  from fl_bounded [OF this] obtain y1
    where y1: "fl (est_growth / 100) = Fin y1" "\<bar>y1\<bar> \<le> pow2 1018" by auto
  have p2: "pow2 1019 = 2 * pow2 1018"
    using pow2_add [of 1 1018] by (simp add: pow2_def)
  have "\<bar>2 * y1\<bar> \<le> pow2 1019"
    using y1(2) unfolding p2 by (simp add: abs_mult)
  from fl_bounded [OF this] obtain y2
    where y2: "fl (2 * y1) = Fin y2" "\<bar>y2\<bar> \<le> pow2 1019" by auto
  have p3: "pow2 1020 = 2 * pow2 1019"
    using pow2_add [of 1 1019] by (simp add: pow2_def)
  have "pow2 4 \<le> pow2 1019" by (intro pow2_mono) simp
  then have "8.5 \<le> pow2 1019" by (simp add: pow2_def)
  then have "\<bar>8.5 + y2\<bar> \<le> pow2 1020"
    using y2(2) unfolding p3 by linarith
  from fl_bounded [OF this] obtain y3 where y3: "fl (8.5 + y2) = Fin y3" by auto
  have "growth_factor est_growth = Inr (Fin y3)"
    by (simp only: growth_factor_def py_div_100 bind_err_def sum.case y1(1) fmul.simps y2(1)
        fadd.simps y3)
  then show ?thesis by blast
qed

lemma py_mul_float_zero:
  "num_val eps = Some (Fin 0) \<Longrightarrow> py_mul_float eps (Fin k) = Inr (Fin 0)"
  by (cases eps) (auto simp: int_to_float_def bind_err_def split: if_splits)

lemma fquot_zero: "d \<noteq> NaN \<Longrightarrow> fquot (Fin 0) d = Fin 0"
  by (cases d) simp_all

lemma graham_value_zero_eps:
  assumes "num_val eps = Some (Fin 0)" and "\<bar>est_growth\<bar> < pow2 1024"
    and "pow2 (- 1075) < aaa_rate / 100"
  shows "graham_value eps est_growth aaa_rate = Inr (Fin 0)"
proof -
  obtain k where k: "growth_factor est_growth = Inr (Fin k)"
    using growth_factor_finite [OF assms(2)] by blast
  have "pow2 (- 1075) < \<bar>aaa_rate / 100\<bar>" using assms(3) by linarith
  then have nz: "fl (aaa_rate / 100) \<noteq> Fin 0" by (rule fl_nonzero)
  have m: "fmul (Fin 0) (fl 4.4) = Fin 0"
    by (simp only: fl_literal_4_4 fmul.simps mult_zero_left fl_0)
  have "graham_value eps est_growth aaa_rate = py_div (Fin 0) (fl (aaa_rate / 100))"
    by (simp only: graham_value_def k bind_err_def sum.case py_mul_float_zero [OF assms(1)]
        py_div_100 m)
  also have "\<dots> = Inr (fquot (Fin 0) (fl (aaa_rate / 100)))"
    using nz by (simp add: py_div_def)
  also have "\<dots> = Inr (Fin 0)" by (simp add: fquot_zero del: fquot.simps)
  finally show ?thesis .
qed

lemma graham_block_zero_eps:
  assumes "num_val eps = Some (Fin 0)" and "\<bar>est_growth\<bar> < pow2 1024"
    and "pow2 (- 1075) < aaa_rate / 100"
  shows "graham_block eps price est_growth aaa_rate = (PFloat (Fin 0), PNone)"
proof -
  have "eps \<noteq> PNone" using assms(1) by auto
  moreover have "0 < aaa_rate / 100" using assms(3) pow2_pos [of "- 1075"] by linarith
  then have "0 < aaa_rate" by simp
  ultimately show ?thesis
    by (simp add: graham_block_def graham_value_zero_eps [OF assms] split: option.splits)
qed

lemma fl_tiny_rate: "fl (pow2 (- 1070) / 100) = Fin 0"
proof -
  have "pow2 (- 1070) / 100 < pow2 (- 1070) / 32" by (simp add: frac_less2)
  also have "pow2 (- 1070) / 32 = pow2 (- 1070) / pow2 5" by (simp add: pow2_def)
  also have "\<dots> = pow2 (- 1075)" by (simp flip: pow2_diff)
  finally show ?thesis by (intro fl_underflow) simp
qed

lemma graham_value_tiny_rate:
  "graham_value (PFloat (Fin 0)) 5 (pow2 (- 1070)) = Inl ZeroDivisionError"
  by (simp only: graham_value_def growth_factor_5 bind_err_def sum.case py_mul_float.simps
      py_div_100 fl_tiny_rate py_div_zero)

text \<open>
  Claim C10, as stated, fails. The discount rate \<open>2\<close> to the power \<open>-1070\<close> is
  strictly positive, but its hundredth rounds to zero, the division raises
  \<^verbatim>\<open>ZeroDivisionError\<close> and the handler stores \<^verbatim>\<open>None\<close> for the Graham
  value.
\<close>

theorem zero_eps_counterexample:
  "num_val (py_get (get_raw (Some raw_zero_cap, None)) ''trailingEps'') = Some (Fin 0)
   \<and> 0 < pow2 (- 1070)
   \<and> entry (compute_metrics reject_all ''BBB'' (Some raw_zero_cap, None) (Some (Fin 100)) 5
        (pow2 (- 1070))) ''Graham Value (est. USD)'' = Some PNone"
proof -
  have d: "dividend_yield reject_all (get_raw (Some raw_zero_cap, None)) = Inr PNone"
    by (intro dividend_absent) (simp add: get_raw_def raw_zero_cap_def)
  have e: "py_get (get_raw (Some raw_zero_cap, None)) ''trailingEps'' = PFloat (Fin 0)"
    by (simp add: get_raw_def raw_zero_cap_def py_get_def)
  have "graham_block (PFloat (Fin 0)) (Some (Fin 100)) 5 (pow2 (- 1070)) = (PNone, PNone)"
    by (simp add: graham_block_def graham_value_tiny_rate)
  then show ?thesis
    using compute_metrics_row [OF d, of "''BBB''" "Some (Fin 100)" 5 "pow2 (- 1070)"]
    unfolding e by (auto simp: entry_def)
qed

text \<open>
  Claim C10, amended. With earnings per share equal to zero, a finite growth rate and
  a discount rate whose hundredth is above \<open>2\<close> to the power \<open>-1075\<close> (so that it
  does not round to zero), the Graham value of the row is the number 0 and the margin
  of safety is unknown, whatever the price.
\<close>

theorem zero_eps_zero_graham:
  assumes "dividend_yield pf (get_raw info_raw) = Inr dy"
    and "num_val (py_get (get_raw info_raw) ''trailingEps'') = Some (Fin 0)"
    and "\<bar>est_growth\<bar> < pow2 1024"
    and "pow2 (- 1075) < aaa_rate / 100"
  shows "\<exists>r. compute_metrics pf ticker info_raw price est_growth aaa_rate = Inr r
     \<and> r ''Graham Value (est. USD)'' = Some (PFloat (Fin 0))
     \<and> r ''Margin of Safety (%)'' = Some PNone"
  using compute_metrics_row [OF assms(1), of ticker price est_growth aaa_rate]
    graham_block_zero_eps [OF assms(2-4), of price]
  by auto

text \<open>
  Earnings per share of zero, growth 5, discount rate 4, price 100.
\<close>

theorem zero_eps_zero_graham_witness:
  "num_val (py_get (get_raw (Some raw_zero_cap, None)) ''trailingEps'') = Some (Fin 0)
   \<and> \<bar>5\<bar> < pow2 1024 \<and> pow2 (- 1075) < 4 / 100
   \<and> (\<exists>r. compute_metrics reject_all ''BBB'' (Some raw_zero_cap, None) (Some (Fin 100)) 5 4 = Inr r
        \<and> r ''Graham Value (est. USD)'' = Some (PFloat (Fin 0))
        \<and> r ''Margin of Safety (%)'' = Some PNone)"
proof -
  have d: "dividend_yield reject_all (get_raw (Some raw_zero_cap, None)) = Inr PNone"
    by (intro dividend_absent) (simp add: get_raw_def raw_zero_cap_def)
  have e: "num_val (py_get (get_raw (Some raw_zero_cap, None)) ''trailingEps'') = Some (Fin 0)"
    by (simp add: get_raw_def raw_zero_cap_def py_get_def)
  have g: "\<bar>5\<bar> < pow2 1024" by (simp add: pow2_def)
  have a: "pow2 (- 1075) < 4 / 100" by (simp add: pow2_def)
  show ?thesis
    using zero_eps_zero_graham [OF d e g a, of "''BBB''" "Some (Fin 100)"] e g a by simp
qed

section \<open>The filter block computes the conjunction of the six clauses\<close>

text \<open>
  On a table of metric rows no step of the block raises. The mask it builds is true at
  a label exactly when the label is one of the fresh mask and the row under it
  satisfies the six clauses.
\<close>

lemma holds_new_mask: "holds (new_mask n) l = (l < n)"
proof -
  have "map_of (map (\<lambda>i. (i, True)) [0..<n]) = (Some \<circ> (\<lambda>i. True)) |` set [0..<n]"
    by (rule map_of_map_restrict)
  then show ?thesis by (auto simp: holds_def new_mask_def restrict_map_def)
qed

lemma holds_positional:
  "map fst m = map fst other \<Longrightarrow>
   holds (map (\<lambda>((l, a), (k, b)). (l, a \<and> b)) (zip m other)) l = (holds m l \<and> holds other l)"
proof (induction m arbitrary: other)
  case Nil
  then show ?case by (simp add: holds_def)
next
  case (Cons x m)
  then obtain y other' where o: "other = y # other'" by (cases other) auto
  with Cons.prems have f: "fst x = fst y" and t: "map fst m = map fst other'" by auto
  have ih: "holds (map (\<lambda>((l, a), (k, b)). (l, a \<and> b)) (zip m other')) l
      = (holds m l \<and> holds other' l)"
    using Cons.IH [OF t] .
  show ?case
    using f ih unfolding o by (cases x; cases y) (auto simp: holds_def)
qed

lemma holds_labelled: "holds m l \<Longrightarrow> l \<in> set (map fst m)"
  by (auto simp: holds_def dest: map_of_SomeD intro: rev_image_eqI)

lemma holds_aligned:
  "set (map fst m) \<subseteq> set ls \<Longrightarrow>
   holds (map (\<lambda>l. (l, holds m l \<and> holds other l)) ls) l = (holds m l \<and> holds other l)"
proof -
  assume s: "set (map fst m) \<subseteq> set ls"
  have "map_of (map (\<lambda>l. (l, holds m l \<and> holds other l)) ls)
      = (Some \<circ> (\<lambda>l. holds m l \<and> holds other l)) |` set ls"
    by (rule map_of_map_restrict)
  then have "holds (map (\<lambda>l. (l, holds m l \<and> holds other l)) ls) l
      = (l \<in> set ls \<and> holds m l \<and> holds other l)"
    by (auto simp: holds_def restrict_map_def)
  with s holds_labelled [of m l] show ?thesis by auto
qed

lemma holds_mask_and: "holds (mask_and m other) l = (holds m l \<and> holds other l)"
  by (simp add: mask_and_def holds_positional holds_aligned)

lemma labels_mask_and: "set (map fst other) \<subseteq> set (map fst (mask_and m other))"
proof (cases "map fst m = map fst other")
  case True
  then have "length m = length other" by (metis length_map)
  then have "map fst (map (\<lambda>((l, a), (k, b)). (l, a \<and> b)) (zip m other)) = map fst m"
    by (induction m other rule: list_induct2) auto
  with True show ?thesis by (simp add: mask_and_def)
next
  case False
  then show ?thesis by (auto simp: mask_and_def)
qed

lemma labels_mask_and_left: "set (map fst m) \<subseteq> set (map fst (mask_and m other))"
proof (cases "map fst m = map fst other")
  case True
  with labels_mask_and [of other m] show ?thesis by simp
next
  case False
  then show ?thesis by (auto simp: mask_and_def)
qed

lemma le_fillna:
  "numeric_cell (r c) \<Longrightarrow> le_elem (fillna PosInf (r c)) t = Inr (fle (metric PosInf r c) (Fin t))"
  by (auto simp: numeric_cell_def fillna_def metric_def split: option.splits)

lemma ge_fillna:
  "numeric_cell (r c) \<Longrightarrow> ge_elem (fillna NegInf (r c)) t = Inr (fle (Fin t) (metric NegInf r c))"
  by (auto simp: numeric_cell_def fillna_def metric_def split: option.splits)

lemma series_le_column:
  "length ls = length rs \<Longrightarrow> \<forall>r \<in> set rs. numeric_cell (r c) \<Longrightarrow>
   series_le (series_fillna PosInf (zip ls (map (\<lambda>r. r c) rs))) t
     = Inr (zip ls (map (\<lambda>r. fle (metric PosInf r c) (Fin t)) rs))"
proof (induction ls rs rule: list_induct2)
  case Nil
  then show ?case by (simp add: series_le_def series_fillna_def bind_err_def)
next
  case (Cons l ls r rs)
  then have "series_le (series_fillna PosInf (zip ls (map (\<lambda>r. r c) rs))) t
     = Inr (zip ls (map (\<lambda>r. fle (metric PosInf r c) (Fin t)) rs))" by simp
  moreover have "le_elem (fillna PosInf (r c)) t = Inr (fle (metric PosInf r c) (Fin t))"
    using Cons.prems by (intro le_fillna) simp
  ultimately show ?case
    by (auto simp: series_le_def series_fillna_def bind_err_def split: sum.splits)
qed

lemma series_ge_column:
  "length ls = length rs \<Longrightarrow> \<forall>r \<in> set rs. numeric_cell (r c) \<Longrightarrow>
   series_ge (series_fillna NegInf (zip ls (map (\<lambda>r. r c) rs))) t
     = Inr (zip ls (map (\<lambda>r. fle (Fin t) (metric NegInf r c)) rs))"
proof (induction ls rs rule: list_induct2)
  case Nil
  then show ?case by (simp add: series_ge_def series_fillna_def bind_err_def)
next
  case (Cons l ls r rs)
  then have "series_ge (series_fillna NegInf (zip ls (map (\<lambda>r. r c) rs))) t
     = Inr (zip ls (map (\<lambda>r. fle (Fin t) (metric NegInf r c)) rs))" by simp
  moreover have "ge_elem (fillna NegInf (r c)) t = Inr (fle (Fin t) (metric NegInf r c))"
    using Cons.prems by (intro ge_fillna) simp
  ultimately show ?case
    by (auto simp: series_ge_def series_fillna_def bind_err_def split: sum.splits)
qed

lemma metric_table_column:
  "metric_table df \<Longrightarrow> c \<in> set metric_columns \<Longrightarrow>
   c \<in> columns df \<and> (\<forall>r \<in> set (records df). numeric_cell (r c))"
  by (simp add: metric_table_def)

lemma apply_max_column:
  assumes "metric_table df" and "c \<in> set metric_columns"
  shows "apply_max df c (Some t) m
     = Inr (mask_and m (zip (index df) (map (\<lambda>r. fle (metric PosInf r c) (Fin t)) (records df))))"
proof -
  have len: "length (index df) = length (records df)" using assms(1) by (simp add: metric_table_def)
  from metric_table_column [OF assms] len show ?thesis
    by (simp add: apply_max_def getitem_def bind_err_def series_le_column)
qed

lemma apply_min_column:
  assumes "metric_table df" and "c \<in> set metric_columns"
  shows "apply_min df c (Some t) m
     = Inr (mask_and m (zip (index df) (map (\<lambda>r. fle (Fin t) (metric NegInf r c)) (records df))))"
proof -
  have len: "length (index df) = length (records df)" using assms(1) by (simp add: metric_table_def)
  from metric_table_column [OF assms] len show ?thesis
    by (simp add: apply_min_def getitem_def bind_err_def series_ge_column)
qed

lemma holds_column:
  assumes "distinct ls" and "length ls = length rs" and "(l, r) \<in> set (zip ls rs)"
  shows "holds (zip ls (map Q rs)) l = Q r"
proof -
  from assms(3) obtain i where i: "i < length rs" "ls ! i = l" "rs ! i = r"
    using assms(2) by (auto simp: in_set_zip)
  have "map_of (zip ls (map Q rs)) (ls ! i) = Some (map Q rs ! i)"
    using assms(1,2) i(1) by (intro map_of_zip_nth) simp_all
  with i show ?thesis by (simp add: holds_def)
qed

lemma apply_filters_kept:
  assumes "metric_table df"
  shows "apply_filters (sidebar cfg) df
     = Inr (df\<lparr>index := map fst (kept cfg df), records := map snd (kept cfg df)\<rparr>)"
proof -
  let ?col = "\<lambda>Q. zip (index df) (map Q (records df))"
  let ?m = "mask_and (mask_and (mask_and (mask_and (mask_and (mask_and
      (new_mask (length (records df)))
      (?col (\<lambda>r. fle (metric PosInf r ''P/E'') (Fin (maxPE cfg)))))
      (?col (\<lambda>r. fle (metric PosInf r ''P/B'') (Fin (maxPB cfg)))))
      (?col (\<lambda>r. fle (metric PosInf r ''Debt/Equity'') (Fin (maxDE cfg)))))
      (?col (\<lambda>r. fle (Fin (minDivYield cfg)) (metric NegInf r ''Dividend Yield (%)''))))
      (?col (\<lambda>r. fle (Fin (minFCFYield cfg)) (metric NegInf r ''FCF Yield (%)''))))
      (?col (\<lambda>r. fle (Fin (minMoS cfg)) (metric NegInf r ''Margin of Safety (%)'')))"
  have len: "length (index df) = length (records df)" and dist: "distinct (index df)"
    using assms by (simp_all add: metric_table_def)
  have cols: "''P/E'' \<in> set metric_columns" "''P/B'' \<in> set metric_columns"
    "''Debt/Equity'' \<in> set metric_columns" "''Dividend Yield (%)'' \<in> set metric_columns"
    "''FCF Yield (%)'' \<in> set metric_columns" "''Margin of Safety (%)'' \<in> set metric_columns"
    by (simp_all add: metric_columns_def)
  have run: "apply_filters (sidebar cfg) df = select df ?m"
    unfolding apply_filters_def sidebar_def
    by (simp only: thresholds.simps bind_err_def sum.case
        apply_max_column [OF assms cols(1)] apply_max_column [OF assms cols(2)]
        apply_max_column [OF assms cols(3)] apply_min_column [OF assms cols(4)]
        apply_min_column [OF assms cols(5)] apply_min_column [OF assms cols(6)])
  have "set (map fst (?col (\<lambda>r. fle (Fin (minMoS cfg)) (metric NegInf r ''Margin of Safety (%)''))))
      = set (index df)"
    using len by simp
  then have cover: "set (index df) \<subseteq> set (map fst ?m)"
    using labels_mask_and by blast
  have "filter (\<lambda>(l, r). holds ?m l) (zip (index df) (records df)) = kept cfg df"
    unfolding kept_def
  proof (rule filter_cong [OF refl])
    fix x assume x: "x \<in> set (zip (index df) (records df))"
    obtain l r where lr: "x = (l, r)" by (cases x)
    with x have "(l, r) \<in> set (zip (index df) (records df))" by simp
    then have h: "holds (?col Q) l = Q r" for Q
      using holds_column [OF dist len] by blast
    show "(case x of (l, r) \<Rightarrow> holds ?m l)
        = (case x of (l, r) \<Rightarrow> l < length (records df) \<and> survives cfg r)"
      unfolding lr by (simp add: holds_mask_and holds_new_mask h survives_def)
  qed
  with cover have "select df ?m
      = Inr (df\<lparr>index := map fst (kept cfg df), records := map snd (kept cfg df)\<rparr>)"
    by (simp add: select_def Let_def)
  with run show ?thesis by simp
qed

section \<open>Properties of the filter\<close>

lemma records_DataFrame: "records (DataFrame rows) = rows"
  by (simp add: DataFrame_def)

lemma index_DataFrame: "index (DataFrame rows) = [0..<length rows]"
  by (simp add: DataFrame_def)

lemma kept_survives: "(l, r) \<in> set (kept cfg df) \<Longrightarrow> survives cfg r"
  by (simp add: kept_def)

lemma kept_subset: "set (kept cfg df) \<subseteq> set (zip (index df) (records df))"
  by (auto simp: kept_def)

lemma zip_upt_less: "(l, r) \<in> set (zip [0..<n] rs) \<Longrightarrow> l < n"
  by (auto dest: set_zip_leftD)

lemma snd_filter_zip:
  "length ls = length rs \<Longrightarrow> map snd (filter (\<lambda>(l, r). P r) (zip ls rs)) = filter P rs"
  by (induction ls rs rule: list_induct2) auto

lemma kept_fresh:
  assumes "index df = [0..<length (records df)]"
  shows "map snd (kept cfg df) = filter (survives cfg) (records df)"
proof -
  have "kept cfg df = filter (\<lambda>(l, r). survives cfg r) (zip (index df) (records df))"
    unfolding kept_def
    by (rule filter_cong [OF refl]) (use assms zip_upt_less in auto)
  then show ?thesis using assms by (simp add: snd_filter_zip)
qed

lemma kept_all:
  assumes "\<And>l r. (l, r) \<in> set (zip (index d) (records d)) \<Longrightarrow>
             l < length (records d) \<and> survives cfg r"
  shows "kept cfg d = zip (index d) (records d)"
  unfolding kept_def using assms by (intro filter_True) auto

lemma kept_survivors:
  assumes "\<forall>r \<in> set (records d). survives cfg r"
  shows "kept cfg d = filter (\<lambda>(l, r). l < length (records d)) (zip (index d) (records d))"
  unfolding kept_def
  by (rule filter_cong [OF refl]) (use assms in \<open>auto dest: set_zip_rightD\<close>)

lemma demo_table: "metric_table (DataFrame [row_cheap, row_dear, row_no_dividend])"
  by (simp add: metric_table_def metric_columns_def DataFrame_def numeric_cell_def
      row_cheap_def row_dear_def row_no_dividend_def)

lemma demo_survives:
  "survives default_config row_cheap" "\<not> survives default_config row_dear"
  "\<not> survives default_config row_no_dividend"
  by (simp_all add: survives_def default_config_def metric_def
      row_cheap_def row_dear_def row_no_dividend_def)

lemma metric_table_kept:
  assumes "metric_table df"
  shows "metric_table (df\<lparr>index := map fst (kept cfg df), records := map snd (kept cfg df)\<rparr>)"
proof -
  have dist: "distinct (index df)" and len: "length (index df) = length (records df)"
    using assms by (simp_all add: metric_table_def)
  have "distinct (map fst (zip (index df) (records df)))" using dist len by simp
  then have d: "distinct (map fst (kept cfg df))"
    unfolding kept_def by (rule distinct_map_filter)
  have "snd ` set (kept cfg df) \<subseteq> set (records df)"
    using kept_subset [of cfg df] set_zip_rightD by fastforce
  with assms d show ?thesis by (auto simp: metric_table_def)
qed

text \<open>
  Claim C2, as stated, fails. The third example row has an unknown dividend yield and
  the default minimum dividend yield is zero; the clause is false for it, and the
  filter drops the row.
\<close>

theorem unknown_passes_counterexample:
  "unknown row_no_dividend ''Dividend Yield (%)''
   \<and> minDivYield default_config \<le> 0
   \<and> apply_min (DataFrame [row_no_dividend]) ''Dividend Yield (%)''
        (div_yield_min (sidebar default_config)) (new_mask 1) = Inr [(0, False)]
   \<and> apply_filters (sidebar default_config) (DataFrame [row_no_dividend])
        = Inr ((DataFrame [row_no_dividend])\<lparr>index := [], records := []\<rparr>)"
proof -
  have t: "metric_table (DataFrame [row_no_dividend])"
    by (simp add: metric_table_def metric_columns_def DataFrame_def numeric_cell_def
        row_no_dividend_def)
  have k: "kept default_config (DataFrame [row_no_dividend]) = []"
    by (simp add: kept_def DataFrame_def demo_survives)
  have a: "apply_min (DataFrame [row_no_dividend]) ''Dividend Yield (%)''
        (div_yield_min (sidebar default_config)) (new_mask 1) = Inr [(0, False)]"
    by (simp add: apply_min_def sidebar_def default_config_def getitem_def DataFrame_def
        row_no_dividend_def bind_err_def series_ge_def series_fillna_def fillna_def
        mask_and_def new_mask_def)
  have f: "apply_filters (sidebar default_config) (DataFrame [row_no_dividend])
        = Inr ((DataFrame [row_no_dividend])\<lparr>index := [], records := []\<rparr>)"
    using apply_filters_kept [OF t, of default_config] unfolding k by simp
  have u: "unknown row_no_dividend ''Dividend Yield (%)''"
    by (simp add: unknown_def row_no_dividend_def)
  have z: "minDivYield default_config \<le> 0" by (simp add: default_config_def)
  from u z a f show ?thesis by blast
qed

text \<open>
  Claim C2, amended. A row whose dividend yield, free cash flow yield or margin of
  safety is unknown fails the clause of that column for every minimum the sidebar can
  supply, zero and negative ones included, and the filter excludes it: minus infinity
  is below every float.
\<close>

theorem unknown_fails_minimum:
  assumes "metric_table df" and "r \<in> set (records df)"
    and "c \<in> {''Dividend Yield (%)'', ''FCF Yield (%)'', ''Margin of Safety (%)''}"
    and "unknown r c"
  shows "ge_elem (fillna NegInf (r c)) t = Inr False
    \<and> (\<exists>df'. apply_filters (sidebar cfg) df = Inr df' \<and> r \<notin> set (records df'))"
proof -
  have m: "metric NegInf r c = NegInf"
    using assms(4) by (auto simp: unknown_def metric_def)
  have clause: "ge_elem (fillna NegInf (r c)) t = Inr False"
    using assms(4) by (auto simp: unknown_def fillna_def)
  have "\<not> survives cfg r"
    using assms(3) m by (auto simp: survives_def)
  then have "r \<notin> snd ` set (kept cfg df)"
    using kept_survives by force
  then have "r \<notin> set (records (df\<lparr>index := map fst (kept cfg df), records := map snd (kept cfg df)\<rparr>))"
    by simp
  with apply_filters_kept [OF assms(1), of cfg] clause show ?thesis by blast
qed

text \<open>
  The third example row, with the minimum \<open>-5\<close>.
\<close>

theorem unknown_fails_minimum_witness:
  "metric_table (DataFrame [row_cheap, row_dear, row_no_dividend])
   \<and> row_no_dividend \<in> set (records (DataFrame [row_cheap, row_dear, row_no_dividend]))
   \<and> unknown row_no_dividend ''Dividend Yield (%)''
   \<and> ge_elem (fillna NegInf (row_no_dividend ''Dividend Yield (%)'')) (-5) = Inr False
   \<and> (\<exists>df'. apply_filters (sidebar default_config) (DataFrame [row_cheap, row_dear, row_no_dividend]) = Inr df'
         \<and> row_no_dividend \<notin> set (records df'))"
proof -
  have u: "unknown row_no_dividend ''Dividend Yield (%)''"
    by (simp add: unknown_def row_no_dividend_def)
  have i: "row_no_dividend \<in> set (records (DataFrame [row_cheap, row_dear, row_no_dividend]))"
    by (simp add: records_DataFrame)
  show ?thesis
    using unknown_fails_minimum [OF demo_table i _ u, of "-5" default_config] demo_table i u
    by simp
qed

text \<open>
  Claim C3 fails on the code. When every ticker of a run ends in the fallback row of
  line 114, the table has the columns \<^verbatim>\<open>Ticker\<close> and \<^verbatim>\<open>Price (USD)\<close> only,
  and \<^verbatim>\<open>df['P/E']\<close> raises \<^verbatim>\<open>KeyError\<close>: the filter returns no table, and the
  run ends in the exception. On a table that has the six columns the block returns
  the rows that satisfy the six clauses (\<open>apply_filters_kept\<close>, \<open>kept_fresh\<close>).
\<close>

theorem filter_fallback_table:
  "apply_filters (sidebar cfg) (DataFrame [fallback_row tk]) = Inl KeyError
   \<and> uncaught (run (\<lambda>tk. Inl ValueError) pf to_csv to_excel_bytes cfg [tk]) = Some KeyError
   \<and> filtered_results (run (\<lambda>tk. Inl ValueError) pf to_csv to_excel_bytes cfg [tk]) = None"
  by (simp add: run_def Let_def process_ticker_def bind_err_def fallback_row_def DataFrame_def
      apply_filters_def apply_max_def getitem_def sidebar_def)

text \<open>
  Claim C7, as stated, fails. The filtered table keeps the labels of its rows, and the
  fresh mask of a second pass is labelled from zero: with the example rows in the order
  dear, cheap the first pass keeps the cheap row under its label 1, and the second
  pass drops it.
\<close>

theorem filter_twice_counterexample:
  "apply_filters (sidebar default_config) (DataFrame [row_dear, row_cheap])
     = Inr ((DataFrame [row_dear, row_cheap])\<lparr>index := [1], records := [row_cheap]\<rparr>)
   \<and> apply_filters (sidebar default_config)
        ((DataFrame [row_dear, row_cheap])\<lparr>index := [1], records := [row_cheap]\<rparr>)
     = Inr ((DataFrame [row_dear, row_cheap])\<lparr>index := [], records := []\<rparr>)"
proof -
  have t: "metric_table (DataFrame [row_dear, row_cheap])"
    by (simp add: metric_table_def metric_columns_def DataFrame_def numeric_cell_def
        row_cheap_def row_dear_def)
  have t': "metric_table ((DataFrame [row_dear, row_cheap])\<lparr>index := [1], records := [row_cheap]\<rparr>)"
    by (simp add: metric_table_def metric_columns_def DataFrame_def numeric_cell_def
        row_cheap_def row_dear_def)
  have k: "kept default_config (DataFrame [row_dear, row_cheap]) = [(1, row_cheap)]"
    by (simp add: kept_def DataFrame_def demo_survives)
  have k': "kept default_config ((DataFrame [row_dear, row_cheap])\<lparr>index := [1], records := [row_cheap]\<rparr>) = []"
    by (simp add: kept_def)
  have a: "apply_filters (sidebar default_config) (DataFrame [row_dear, row_cheap])
     = Inr ((DataFrame [row_dear, row_cheap])\<lparr>index := [1], records := [row_cheap]\<rparr>)"
    using apply_filters_kept [OF t, of default_config] unfolding k by simp
  have b: "apply_filters (sidebar default_config)
        ((DataFrame [row_dear, row_cheap])\<lparr>index := [1], records := [row_cheap]\<rparr>)
     = Inr ((DataFrame [row_dear, row_cheap])\<lparr>index := [], records := []\<rparr>)"
    using apply_filters_kept [OF t', of default_config] unfolding k' by simp
  from a b show ?thesis by blast
qed

text \<open>
  Claim C7, amended. For a freshly built table of metric rows the filter returns the
  rows that satisfy the six clauses, and filtering that result again after its rows
  are labelled afresh returns it unchanged. Under the old labels the second pass keeps
  exactly the rows whose label is below the number of rows of the filtered table.
\<close>

theorem filter_relabelled_idempotent:
  assumes "metric_table df" and "index df = [0..<length (records df)]"
  shows "\<exists>df'. apply_filters (sidebar cfg) df = Inr df'
     \<and> records df' = filter (survives cfg) (records df)
     \<and> apply_filters (sidebar cfg) (reset_index df') = Inr (reset_index df')
     \<and> (\<exists>df''. apply_filters (sidebar cfg) df' = Inr df''
           \<and> records df'' = map snd (filter (\<lambda>(l, r). l < length (records df'))
                                  (zip (index df') (records df'))))"
proof -
  let ?df' = "df\<lparr>index := map fst (kept cfg df), records := map snd (kept cfg df)\<rparr>"
  have first: "apply_filters (sidebar cfg) df = Inr ?df'"
    using assms(1) by (rule apply_filters_kept)
  have recs: "records ?df' = filter (survives cfg) (records df)"
    using kept_fresh [OF assms(2)] by simp
  have t': "metric_table ?df'" using assms(1) by (rule metric_table_kept)
  have all: "\<forall>r \<in> set (records ?df'). survives cfg r" using recs by simp
  \<comment> \<open>the second pass on the relabelled table\<close>
  have tr: "metric_table (reset_index ?df')"
    using t' by (auto simp: metric_table_def reset_index_def)
  have ir: "index (reset_index ?df') = [0..<length (records (reset_index ?df'))]"
    by (simp add: reset_index_def)
  have kr: "kept cfg (reset_index ?df') = zip (index (reset_index ?df')) (records (reset_index ?df'))"
  proof (rule kept_all)
    fix l r assume x: "(l, r) \<in> set (zip (index (reset_index ?df')) (records (reset_index ?df')))"
    then have "l < length (records (reset_index ?df'))" and "r \<in> set (records ?df')"
      unfolding ir by (auto dest: zip_upt_less set_zip_rightD simp: reset_index_def)
    with all show "l < length (records (reset_index ?df')) \<and> survives cfg r" by blast
  qed
  have second: "apply_filters (sidebar cfg) (reset_index ?df') = Inr (reset_index ?df')"
    using apply_filters_kept [OF tr, of cfg] unfolding kr
    by (simp add: reset_index_def)
  \<comment> \<open>the second pass on the filtered table under its old labels\<close>
  have kl: "kept cfg ?df' = filter (\<lambda>(l, r). l < length (records ?df'))
      (zip (index ?df') (records ?df'))"
    using all by (rule kept_survivors)
  have third: "\<exists>df''. apply_filters (sidebar cfg) ?df' = Inr df''
      \<and> records df'' = map snd (filter (\<lambda>(l, r). l < length (records ?df'))
                                  (zip (index ?df') (records ?df')))"
    using apply_filters_kept [OF t', of cfg] unfolding kl by simp
  from first recs second third show ?thesis by blast
qed

text \<open>
  The example rows in the order dear, cheap.
\<close>

theorem filter_relabelled_idempotent_witness:
  "metric_table (DataFrame [row_dear, row_cheap])
   \<and> index (DataFrame [row_dear, row_cheap]) = [0..<length (records (DataFrame [row_dear, row_cheap]))]
   \<and> (\<exists>df'. apply_filters (sidebar default_config) (DataFrame [row_dear, row_cheap]) = Inr df'
        \<and> records df' = [row_cheap]
        \<and> apply_filters (sidebar default_config) (reset_index df') = Inr (reset_index df'))"
proof -
  have t: "metric_table (DataFrame [row_dear, row_cheap])"
    by (simp add: metric_table_def metric_columns_def DataFrame_def numeric_cell_def
        row_cheap_def row_dear_def)
  have i: "index (DataFrame [row_dear, row_cheap]) = [0..<length (records (DataFrame [row_dear, row_cheap]))]"
    by (simp add: DataFrame_def)
  show ?thesis
    using filter_relabelled_idempotent [OF t i, of default_config] t i
    by (auto simp: records_DataFrame demo_survives)
qed

section \<open>Properties of the run handler\<close>

lemma batch_map: "batch f tks rows = rows @ map f tks"
  by (induction tks arbitrary: rows) simp_all

lemma compute_metrics_ticker:
  "compute_metrics pf tk info_raw price est_growth aaa_rate = Inr r \<Longrightarrow> r ''Ticker'' = Some (PStr tk)"
  by (auto simp: compute_metrics_def bind_err_def Let_def split: sum.splits)

lemma process_ticker_ticker:
  "process_ticker fetch pf est_growth aaa_rate tk ''Ticker'' = Some (PStr tk)"
  by (auto simp: process_ticker_def bind_err_def fallback_row_def
      split: sum.splits dest: compute_metrics_ticker)

text \<open>
  Claim C8. The run shows the error message exactly when the ticker list is empty; it
  then shows no table and offers no download. With a non-empty list the batch produces
  one row per ticker, in order, each carrying its ticker.
\<close>

theorem run_empty_iff_error:
  "(tickers = [] \<longleftrightarrow> error_message (run fetch pf to_csv to_excel_bytes cfg tickers) \<noteq> None)
   \<and> (if tickers = []
      then raw_results (run fetch pf to_csv to_excel_bytes cfg tickers) = None
         \<and> filtered_results (run fetch pf to_csv to_excel_bytes cfg tickers) = None
         \<and> downloads (run fetch pf to_csv to_excel_bytes cfg tickers) = []
      else \<exists>df. raw_results (run fetch pf to_csv to_excel_bytes cfg tickers) = Some df
         \<and> length (records df) = length tickers
         \<and> map (\<lambda>r. r ''Ticker'') (records df) = map (\<lambda>tk. Some (PStr tk)) tickers)"
  by (auto simp: run_def Let_def batch_map records_DataFrame process_ticker_ticker
      split: sum.splits)

end
